theory Spec2Isabelle
  imports Main "HOL-Library.AList"
begin

section \<open>Data model of the media service\<close>

text \<open>
  The embedding follows \<^verbatim>\<open>src/services/MediaService.js\<close> and
  \<^verbatim>\<open>src/services/StreamService.js\<close>. A JavaScript \<^verbatim>\<open>Map\<close> keeps its keys
  in insertion order, and the loops of \<^verbatim>\<open>consume\<close> depend on that order, so a
  \<^verbatim>\<open>Map\<close> is an association list: \<open>map_of m k\<close> is \<^verbatim>\<open>m.get(k)\<close>,
  \<open>AList.update k v m\<close> is \<^verbatim>\<open>m.set(k, v)\<close> (an existing key keeps its place, a
  new key goes to the end), \<open>AList.delete k m\<close> is \<^verbatim>\<open>m.delete(k)\<close>,
  \<open>length m\<close> is \<^verbatim>\<open>m.size\<close>, and \<open>AList.map_entry k f m\<close> is a mutation, through
  a reference, of the object stored under \<open>k\<close>.

  A thrown \<^verbatim>\<open>Error\<close> is a value; every operation returns its result (or the error)
  together with the state it leaves behind, because a JavaScript exception does not undo
  the mutations made before it.
\<close>

type_synonym 'a js_map = "(string \<times> 'a) list"

datatype error =
    Error string      \<comment> \<open>\<^verbatim>\<open>throw new Error(msg)\<close> in the services\<close>
  | TypeError string  \<comment> \<open>a call on \<^verbatim>\<open>undefined\<close>\<close>
  | EngineError string \<comment> \<open>a rejection of a mediasoup call\<close>
  | RedisError string  \<comment> \<open>a rejection of a Redis command\<close>
  | MongoError string  \<comment> \<open>a rejection of a call on the \<^verbatim>\<open>Stream\<close> model\<close>

datatype level = Info | Warn | Err | Debug

record transport =
  t_id :: string
  t_userId :: string      \<comment> \<open>\<^verbatim>\<open>appData.userId\<close>\<close>
  t_direction :: string   \<comment> \<open>\<^verbatim>\<open>appData.direction\<close>\<close>
  t_params :: string      \<comment> \<open>ICE and DTLS parameters, opaque\<close>

record producer =
  p_id :: string
  p_kind :: string
  p_userId :: string      \<comment> \<open>\<^verbatim>\<open>appData.userId\<close>\<close>
  p_transport :: string   \<comment> \<open>the transport it was produced on (known to the engine)\<close>

record consumer =
  c_id :: string
  c_kind :: string
  c_rtpParameters :: string
  c_producerId :: string
  c_userId :: string      \<comment> \<open>\<^verbatim>\<open>appData.userId\<close>\<close>
  c_transport :: string   \<comment> \<open>the transport it was created on (known to the engine)\<close>
  c_paused :: bool

record participant =
  part_id :: string
  transports :: "transport js_map"
  producers :: "producer js_map"
  consumers :: "consumer js_map"
  joinedAt :: nat

record room =
  room_id :: string
  router :: string
  participants :: "participant js_map"
  createdAt :: nat
  room_workerIndex :: int

datatype worker = Worker nat  \<comment> \<open>\<^verbatim>\<open>appData.workerId\<close>\<close>

text \<open>
  The media engine (mediasoup) is a collaborator. What it answers to a call is a parameter
  of the operation making the call; what the service asks of it is recorded in the field
  \<open>engine\<close>: every object the engine handed out and every \<^verbatim>\<open>close()\<close> the service
  called.
\<close>

datatype engine_op =
    NewRouter string
  | NewTransport string
  | NewProducer string
  | NewConsumer string
  | CloseRouter string
  | CloseTransport string
  | CloseProducer string
  | CloseConsumer string

text \<open>
  Values of the fields of a cached or stored stream: booleans, numbers, strings, dates
  (an ISO string in the program, its time in milliseconds here) and \<^verbatim>\<open>NaN\<close>. A
  Redis hash and a JavaScript object literal are lists of fields.
\<close>

datatype jsval = JBool bool | JNum int | JStr string | JDate int | JNaN

type_synonym hash = "(string \<times> jsval) list"

text \<open>The state of the message queue client: \<^verbatim>\<open>this.channel\<close> is \<^verbatim>\<open>null\<close>, or
  the channel rejects a publish, or it accepts it.\<close>

datatype mq_status = NoChannel | PublishThrows | PublishOk

text \<open>
  One state for the server: the fields of \<^verbatim>\<open>MediaService\<close>, the calls made on the
  engine, the lines given to the shared logger, and the collaborators of
  \<^verbatim>\<open>StreamService\<close>: the Redis cache (\<open>cache_up\<close>: its commands succeed;
  \<open>cache_streams\<close>: the hashes \<^verbatim>\<open>stream:<id>\<close>), the database (\<open>db_up\<close>: calls on
  the \<^verbatim>\<open>Stream\<close> model succeed; \<open>db_streams\<close>: the documents by stream id), the
  message queue with the messages published (exchange, routing key, stream id), and the
  pending \<^verbatim>\<open>setTimeout\<close> callbacks of \<^verbatim>\<open>endStream\<close> (due time, stream id).
  \<open>workerIndex\<close> is a JavaScript number: \<open>None\<close> stands for \<^verbatim>\<open>NaN\<close>, which
  \<^verbatim>\<open>(i + 1) % 0\<close> yields on an empty pool.
\<close>

record state =
  workers :: "worker list"
  workerIndex :: "nat option"
  rooms :: "room js_map"
  engine :: "engine_op list"
  logs :: "(level \<times> string) list"
  cache_up :: bool
  cache_streams :: "string \<rightharpoonup> hash"
  db_up :: bool
  db_streams :: "string \<rightharpoonup> hash"
  mq :: mq_status
  published :: "(string \<times> string \<times> string) list"
  timers :: "(int \<times> string) list"

definition logger :: "level \<Rightarrow> string \<Rightarrow> state \<Rightarrow> state" where
  "logger lvl msg s = s\<lparr>logs := logs s @ [(lvl, msg)]\<rparr>"

definition engine_did :: "engine_op \<Rightarrow> state \<Rightarrow> state" where
  "engine_did op s = s\<lparr>engine := engine s @ [op]\<rparr>"

section \<open>MediaService\<close>

subsection \<open>Worker pool\<close>

text \<open>
  The constructor followed by a successful \<^verbatim>\<open>initialize()\<close> on a machine with
  \<open>cpus\<close> cores: \<^verbatim>\<open>Math.min(os.cpus().length, 8)\<close> workers, worker \<open>i\<close> stored at
  index \<open>i\<close>. (A failing \<^verbatim>\<open>createWorker\<close> ends the process in \<^verbatim>\<open>server.js\<close>.)
  The collaborators are connected and empty, as after \<^verbatim>\<open>initializeServices()\<close>.
\<close>

definition initialize :: "nat \<Rightarrow> state" where
  "initialize cpus =
     \<lparr>workers = map Worker [0..<min cpus 8], workerIndex = Some 0, rooms = [],
      engine = [],
      logs = [(Info, ''Creating mediasoup workers''), (Info, ''Mediasoup initialized'')],
      cache_up = True, cache_streams = Map.empty, db_up = True, db_streams = Map.empty,
      mq = PublishOk, published = [], timers = []\<rparr>"

text \<open>\<^verbatim>\<open>Array.prototype.indexOf\<close>: the first index holding the element, or \<open>-1\<close>.\<close>

fun indexOf :: "'a list \<Rightarrow> 'a \<Rightarrow> int" where
  "indexOf [] x = - 1"
| "indexOf (y # ys) x =
     (if y = x then 0 else (let r = indexOf ys x in if r < 0 then - 1 else r + 1))"

text \<open>
  \<^verbatim>\<open>getNextWorker\<close>: \<^verbatim>\<open>this.workers[this.workerIndex]\<close> is \<^verbatim>\<open>undefined\<close> (here
  \<open>None\<close>) out of range.
\<close>

definition getNextWorker :: "state \<Rightarrow> worker option \<times> state" where
  "getNextWorker s =
     (let worker = (case workerIndex s of
                      None \<Rightarrow> None
                    | Some i \<Rightarrow> if i < length (workers s) then Some (workers s ! i) else None);
          next_index = (case workerIndex s of
                      None \<Rightarrow> None
                    | Some i \<Rightarrow> if length (workers s) = 0 then None
                                else Some ((i + 1) mod length (workers s)))
      in (worker, s\<lparr>workerIndex := next_index\<rparr>))"

subsection \<open>Rooms\<close>

text \<open>
  \<^verbatim>\<open>createRoom(roomId)\<close>. \<open>now\<close> is the reading of \<^verbatim>\<open>Date.now()\<close> and \<open>routerRes\<close>
  what \<^verbatim>\<open>worker.createRouter\<close> answers if it is called: a rejection or the new router.
\<close>

definition createRoom ::
  "state \<Rightarrow> string \<Rightarrow> nat \<Rightarrow> error + string \<Rightarrow> (error + room) \<times> state" where
  "createRoom s roomId now routerRes =
     (case map_of (rooms s) roomId of
        Some existing \<Rightarrow> (Inr existing, s)
      | None \<Rightarrow>
          (case getNextWorker s of
             (None, s1) \<Rightarrow> (Inl (TypeError ''worker is undefined''), s1)
           | (Some worker, s1) \<Rightarrow>
               (case routerRes of
                  Inl e \<Rightarrow> (Inl e, s1)
                | Inr rtr \<Rightarrow>
                    (let new_room = \<lparr>room_id = roomId, router = rtr, participants = [],
                                     createdAt = now,
                                     room_workerIndex = indexOf (workers s1) worker\<rparr>;
                         s2 = engine_did (NewRouter rtr) s1;
                         s3 = s2\<lparr>rooms := AList.update roomId new_room (rooms s2)\<rparr>
                     in (Inr new_room, logger Info ''Room created'' s3)))))"

text \<open>
  A run of \<^verbatim>\<open>createRoom\<close> calls, one per request \<open>(roomId, now, router)\<close>, each
  answered by the engine with a new router; the results are collected in call order.
\<close>

fun createRooms ::
  "state \<Rightarrow> (string \<times> nat \<times> string) list \<Rightarrow> (error + room) list \<times> state" where
  "createRooms s [] = ([], s)"
| "createRooms s ((roomId, now, rtr) # reqs) =
     (case createRoom s roomId now (Inr rtr) of
        (r, s1) \<Rightarrow> (case createRooms s1 reqs of (rs, s2) \<Rightarrow> (r # rs, s2)))"

text \<open>The worker index stored in the room that a call returned; \<open>None\<close> for a failed call.\<close>

definition assigned :: "error + room \<Rightarrow> int option" where
  "assigned r = (case r of Inl e \<Rightarrow> None | Inr rm \<Rightarrow> Some (room_workerIndex rm))"

text \<open>The routers the engine has handed out so far.\<close>

definition routers_created :: "state \<Rightarrow> string list" where
  "routers_created s = [r. NewRouter r \<leftarrow> engine s]"

subsection \<open>Transports, producers, consumers\<close>

text \<open>
  \<^verbatim>\<open>createWebRtcTransport(roomId, userId, direction)\<close>. \<open>transportRes\<close> is what
  \<^verbatim>\<open>room.router.createWebRtcTransport\<close> answers: a rejection, or the id and the
  connection parameters of the new transport. \<open>room\<close> is the object registered under
  \<open>roomId\<close>, so the mutation of its participants is a mutation of the registry. The
  \<^verbatim>\<open>catch\<close> logs and rethrows.
\<close>

definition createWebRtcTransport ::
  "state \<Rightarrow> string \<Rightarrow> string \<Rightarrow> string \<Rightarrow> nat \<Rightarrow> error + string \<Rightarrow> error + string \<times> string \<Rightarrow>
     (error + string \<times> string) \<times> state" where
  "createWebRtcTransport s roomId userId direction now routerRes transportRes =
     (case createRoom s roomId now routerRes of
        (Inl e, s1) \<Rightarrow> (Inl e, logger Err ''Failed to create WebRTC transport'' s1)
      | (Inr room, s1) \<Rightarrow>
          (case transportRes of
             Inl e \<Rightarrow> (Inl e, logger Err ''Failed to create WebRTC transport'' s1)
           | Inr (tid, params) \<Rightarrow>
               (let transport = \<lparr>t_id = tid, t_userId = userId, t_direction = direction,
                                  t_params = params\<rparr>;
                    s2 = engine_did (NewTransport tid) s1;
                    participant =
                      (case map_of (participants room) userId of
                         Some p \<Rightarrow> p
                       | None \<Rightarrow> \<lparr>part_id = userId, transports = [], producers = [],
                                  consumers = [], joinedAt = now\<rparr>);
                    participant' =
                      participant\<lparr>transports := AList.update tid transport (transports participant)\<rparr>;
                    room' = room\<lparr>participants := AList.update userId participant' (participants room)\<rparr>
                in (Inr (tid, params), s2\<lparr>rooms := AList.update roomId room' (rooms s2)\<rparr>))))"

text \<open>
  \<^verbatim>\<open>produce(roomId, userId, transportId, rtpParameters, kind)\<close>. The RTP parameters
  only travel to the engine; \<open>produceRes\<close> is what \<^verbatim>\<open>transport.produce\<close> answers.
\<close>

definition produce ::
  "state \<Rightarrow> string \<Rightarrow> string \<Rightarrow> string \<Rightarrow> string \<Rightarrow> error + string \<Rightarrow> (error + producer) \<times> state" where
  "produce s roomId userId transportId kind produceRes =
     (case map_of (rooms s) roomId of
        None \<Rightarrow> (Inl (Error ''Room not found''), s)
      | Some room \<Rightarrow>
     (case map_of (participants room) userId of
        None \<Rightarrow> (Inl (Error ''Participant not found''), s)
      | Some participant \<Rightarrow>
     (case map_of (transports participant) transportId of
        None \<Rightarrow> (Inl (Error ''Transport not found''), s)
      | Some transport \<Rightarrow>
     (case produceRes of
        Inl e \<Rightarrow> (Inl e, s)
      | Inr pid \<Rightarrow>
          (let new_producer = \<lparr>p_id = pid, p_kind = kind, p_userId = userId,
                               p_transport = t_id transport\<rparr>;
               s1 = engine_did (NewProducer pid) s;
               participant' =
                 participant\<lparr>producers := AList.update pid new_producer (producers participant)\<rparr>;
               room' = room\<lparr>participants := AList.update userId participant' (participants room)\<rparr>;
               s2 = s1\<lparr>rooms := AList.update roomId room' (rooms s1)\<rparr>
           in (Inr new_producer, logger Info ''Producer created'' s2))))))"

text \<open>The first loop of \<^verbatim>\<open>consume\<close>: the first participant, in the order of the
  map, that has the producer.\<close>

fun find_producer :: "participant js_map \<Rightarrow> string \<Rightarrow> producer option" where
  "find_producer [] producerId = None"
| "find_producer ((uid, p) # ps) producerId =
     (case map_of (producers p) producerId of
        Some pr \<Rightarrow> Some pr
      | None \<Rightarrow> find_producer ps producerId)"

text \<open>The second loop: the first transport whose \<^verbatim>\<open>appData.direction\<close> is
  \<^verbatim>\<open>'recv'\<close>.\<close>

definition find_recv :: "transport js_map \<Rightarrow> transport option" where
  "find_recv ts = map_option snd (List.find (\<lambda>(tid, t). t_direction t = ''recv'') ts)"

text \<open>
  \<^verbatim>\<open>consume(roomId, userId, producerId, rtpCapabilities)\<close>. \<open>canConsume\<close> is the
  answer of \<^verbatim>\<open>room.router.canConsume\<close> for these capabilities, \<open>consumeRes\<close> the
  answer of \<^verbatim>\<open>recvTransport.consume\<close>: a rejection, or the id, kind and RTP parameters
  of the new consumer. The result is the consumer descriptor
  \<^verbatim>\<open>{id, kind, rtpParameters, producerId}\<close>.
\<close>

definition consume ::
  "state \<Rightarrow> string \<Rightarrow> string \<Rightarrow> string \<Rightarrow> bool \<Rightarrow> error + string \<times> string \<times> string \<Rightarrow>
     (error + string \<times> string \<times> string \<times> string) \<times> state" where
  "consume s roomId userId producerId canConsume consumeRes =
     (case map_of (rooms s) roomId of
        None \<Rightarrow> (Inl (Error ''Room not found''), s)
      | Some room \<Rightarrow>
     (case map_of (participants room) userId of
        None \<Rightarrow> (Inl (Error ''Participant not found''), s)
      | Some participant \<Rightarrow>
     (case find_producer (participants room) producerId of
        None \<Rightarrow> (Inl (Error ''Producer not found''), s)
      | Some source \<Rightarrow>
     (if \<not> canConsume then (Inl (Error ''Cannot consume this producer''), s)
      else
     (case find_recv (transports participant) of
        None \<Rightarrow> (Inl (Error ''No receive transport found''), s)
      | Some recvTransport \<Rightarrow>
     (case consumeRes of
        Inl e \<Rightarrow> (Inl e, s)
      | Inr (cid, kind, rtp) \<Rightarrow>
          (let new_consumer = \<lparr>c_id = cid, c_kind = kind, c_rtpParameters = rtp,
                               c_producerId = producerId, c_userId = userId,
                               c_transport = t_id recvTransport, c_paused = True\<rparr>;
               s1 = engine_did (NewConsumer cid) s;
               participant' =
                 participant\<lparr>consumers := AList.update cid new_consumer (consumers participant)\<rparr>;
               room' = room\<lparr>participants := AList.update userId participant' (participants room)\<rparr>;
               s2 = s1\<lparr>rooms := AList.update roomId room' (rooms s1)\<rparr>
           in (Inr (cid, kind, rtp, producerId), logger Info ''Consumer created'' s2))))))))"

subsection \<open>Close handlers and the cascade of the engine\<close>

text \<open>
  The handlers that \<^verbatim>\<open>produce\<close> and \<^verbatim>\<open>consume\<close> register hold a reference to the
  participant object. Here the participant is found again under its room and user id: a
  handler that runs after its participant left the room changes nothing in the registry.
\<close>

definition on_participant ::
  "string \<Rightarrow> string \<Rightarrow> (participant \<Rightarrow> participant) \<Rightarrow> state \<Rightarrow> state" where
  "on_participant roomId userId f s =
     s\<lparr>rooms := AList.map_entry roomId
          (\<lambda>r. r\<lparr>participants := AList.map_entry userId f (participants r)\<rparr>) (rooms s)\<rparr>"

text \<open>\<^verbatim>\<open>producer.on('transportclose', ...)\<close> in \<^verbatim>\<open>produce\<close>.\<close>

definition producer_on_transportclose :: "string \<Rightarrow> string \<Rightarrow> string \<Rightarrow> state \<Rightarrow> state" where
  "producer_on_transportclose roomId userId pid s =
     on_participant roomId userId (\<lambda>p. p\<lparr>producers := AList.delete pid (producers p)\<rparr>)
       (engine_did (CloseProducer pid) s)"

text \<open>\<^verbatim>\<open>consumer.on('transportclose', ...)\<close> in \<^verbatim>\<open>consume\<close>.\<close>

definition consumer_on_transportclose :: "string \<Rightarrow> string \<Rightarrow> string \<Rightarrow> state \<Rightarrow> state" where
  "consumer_on_transportclose roomId userId cid s =
     on_participant roomId userId (\<lambda>p. p\<lparr>consumers := AList.delete cid (consumers p)\<rparr>)
       (engine_did (CloseConsumer cid) s)"

text \<open>\<^verbatim>\<open>consumer.on('producerclose', ...)\<close> in \<^verbatim>\<open>consume\<close>.\<close>

definition consumer_on_producerclose :: "string \<Rightarrow> string \<Rightarrow> string \<Rightarrow> state \<Rightarrow> state" where
  "consumer_on_producerclose roomId userId cid s =
     on_participant roomId userId (\<lambda>p. p\<lparr>consumers := AList.delete cid (consumers p)\<rparr>)
       (engine_did (CloseConsumer cid) s)"

text \<open>The consumers of a room that are fed by producer \<open>pid\<close>, each with its owner.\<close>

definition consumers_of :: "room \<Rightarrow> string \<Rightarrow> (string \<times> string) list" where
  "consumers_of room pid =
     concat (map (\<lambda>(uid, p). map (\<lambda>(cid, c). (uid, cid))
                    (filter (\<lambda>(cid, c). c_producerId c = pid) (consumers p)))
                 (participants room))"

text \<open>
  Modelled from the spec: the media engine is a collaborator outside the repository, and
  its close operations "cascade" (sections 3 and 6): when a producer closes, the engine
  emits \<^verbatim>\<open>producerclose\<close> on every consumer fed by it, which runs the handler above.
\<close>

definition producer_closed :: "string \<Rightarrow> string \<Rightarrow> state \<Rightarrow> state" where
  "producer_closed roomId pid s =
     (case map_of (rooms s) roomId of
        None \<Rightarrow> s
      | Some room \<Rightarrow>
          fold (\<lambda>(uid, cid). consumer_on_producerclose roomId uid cid) (consumers_of room pid) s)"

text \<open>
  Modelled from the spec: \<^verbatim>\<open>transport.close()\<close> of the engine (sections 3 and 6), for
  the transport \<open>tid\<close> of participant \<open>userId\<close>. The engine closes the producers and
  the consumers created on the transport and emits \<^verbatim>\<open>transportclose\<close> on each of
  them; the producers being closed, it emits \<^verbatim>\<open>producerclose\<close> on their consumers.
  (The engine sends the latter from its worker process; here they are delivered at once.)
\<close>

definition transport_close :: "string \<Rightarrow> string \<Rightarrow> string \<Rightarrow> state \<Rightarrow> state" where
  "transport_close roomId userId tid s =
     (let s0 = engine_did (CloseTransport tid) s in
      case map_of (rooms s0) roomId of
        None \<Rightarrow> s0
      | Some room \<Rightarrow>
     (case map_of (participants room) userId of
        None \<Rightarrow> s0
      | Some p \<Rightarrow>
          (let pids = map fst (filter (\<lambda>(pid, pr). p_transport pr = tid) (producers p));
               cids = map fst (filter (\<lambda>(cid, c). c_transport c = tid) (consumers p));
               s1 = fold (producer_on_transportclose roomId userId) pids s0;
               s2 = fold (consumer_on_transportclose roomId userId) cids s1
           in fold (producer_closed roomId) pids s2)))"

text \<open>
  \<^verbatim>\<open>closeParticipant(roomId, userId)\<close>. The loop closes the transports the participant
  holds when the call starts; \<^verbatim>\<open>room\<close> is a reference, so its participants are read
  again after the handlers have run.
\<close>

definition closeParticipant :: "state \<Rightarrow> string \<Rightarrow> string \<Rightarrow> state" where
  "closeParticipant s roomId userId =
     (case map_of (rooms s) roomId of
        None \<Rightarrow> s
      | Some room \<Rightarrow>
     (case map_of (participants room) userId of
        None \<Rightarrow> s
      | Some participant \<Rightarrow>
          (let s1 = fold (transport_close roomId userId) (map fst (transports participant)) s;
               s2 = s1\<lparr>rooms := AList.map_entry roomId
                      (\<lambda>r. r\<lparr>participants := AList.delete userId (participants r)\<rparr>) (rooms s1)\<rparr>;
               s3 = logger Info ''Participant removed from room'' s2
           in (case map_of (rooms s3) roomId of
                 None \<Rightarrow> s3
               | Some room' \<Rightarrow>
                   if length (participants room') = 0
                   then logger Info ''Room closed (empty)''
                          ((engine_did (CloseRouter (router room')) s3)
                             \<lparr>rooms := AList.delete roomId (rooms s3)\<rparr>)
                   else s3))))"

text \<open>Lookups used to state the properties.\<close>

definition part_of :: "state \<Rightarrow> string \<Rightarrow> string \<Rightarrow> participant option" where
  "part_of s roomId userId =
     (case map_of (rooms s) roomId of
        None \<Rightarrow> None
      | Some room \<Rightarrow> map_of (participants room) userId)"

definition consumer_of :: "state \<Rightarrow> string \<Rightarrow> string \<Rightarrow> string \<Rightarrow> consumer option" where
  "consumer_of s roomId userId cid =
     (case part_of s roomId userId of
        None \<Rightarrow> None
      | Some p \<Rightarrow> map_of (consumers p) cid)"

text \<open>The number of transports of a direction that a participant holds (0 if there is no
  such participant).\<close>

definition count_direction :: "state \<Rightarrow> string \<Rightarrow> string \<Rightarrow> string \<Rightarrow> nat" where
  "count_direction s roomId userId direction =
     (case part_of s roomId userId of
        None \<Rightarrow> 0
      | Some p \<Rightarrow> length (filter (\<lambda>(tid, t). t_direction t = direction) (transports p)))"

section \<open>The collaborators of StreamService\<close>

subsection \<open>CacheService\<close>

text \<open>\<^verbatim>\<open>hset\<close> of several fields on a hash.\<close>

definition hset_all :: "hash \<Rightarrow> hash \<Rightarrow> hash" where
  "hset_all new_fields h = fold (\<lambda>(f, v). AList.update f v) new_fields h"

text \<open>
  \<^verbatim>\<open>getStream(streamId)\<close>: \<^verbatim>\<open>null\<close> (here \<open>None\<close>) when the hash has no field, and
  also when Redis fails, which is logged and swallowed.
\<close>

definition CacheService_getStream :: "state \<Rightarrow> string \<Rightarrow> hash option \<times> state" where
  "CacheService_getStream s streamId =
     (if \<not> cache_up s then (None, logger Err ''Error getting stream'' s)
      else (case cache_streams s streamId of
              None \<Rightarrow> (None, s)
            | Some h \<Rightarrow> if length h = 0 then (None, s) else (Some h, s)))"

text \<open>\<^verbatim>\<open>updateStream(streamId, streamData)\<close>: a failure of Redis is logged and rethrown.\<close>

definition CacheService_updateStream ::
  "state \<Rightarrow> string \<Rightarrow> hash \<Rightarrow> (error + unit) \<times> state" where
  "CacheService_updateStream s streamId streamData =
     (if \<not> cache_up s
      then (Inl (RedisError ''pipeline failed''), logger Err ''Error updating stream'' s)
      else (Inr (),
            logger Debug ''Stream updated''
              (s\<lparr>cache_streams := (cache_streams s)
                    (streamId \<mapsto> hset_all streamData
                        (case cache_streams s streamId of None \<Rightarrow> [] | Some h \<Rightarrow> h))\<rparr>)))"

text \<open>
  \<^verbatim>\<open>deleteStream(streamId)\<close>: a failure of Redis is logged and swallowed. The keys of
  the viewers, the chat and the statistics, which it deletes too, are only read by
  \<^verbatim>\<open>getStreamStats\<close>, whose answer is a parameter of \<^verbatim>\<open>endStream\<close> below.
\<close>

definition CacheService_deleteStream :: "state \<Rightarrow> string \<Rightarrow> state" where
  "CacheService_deleteStream s streamId =
     (if \<not> cache_up s then logger Err ''Error deleting stream'' s
      else logger Debug ''Stream deleted'' (s\<lparr>cache_streams := (cache_streams s)(streamId := None)\<rparr>))"

subsection \<open>The Stream model of the database\<close>

text \<open>\<^verbatim>\<open>new Stream(stream).save()\<close> and \<^verbatim>\<open>Stream.updateOne({id}, fields)\<close>, which
  changes a stored document and creates none.\<close>

definition Stream_save :: "state \<Rightarrow> string \<Rightarrow> hash \<Rightarrow> (error + unit) \<times> state" where
  "Stream_save s streamId doc =
     (if \<not> db_up s then (Inl (MongoError ''save failed''), s)
      else (Inr (), s\<lparr>db_streams := (db_streams s)(streamId \<mapsto> doc)\<rparr>))"

definition Stream_updateOne :: "state \<Rightarrow> string \<Rightarrow> hash \<Rightarrow> (error + unit) \<times> state" where
  "Stream_updateOne s streamId new_fields =
     (if \<not> db_up s then (Inl (MongoError ''update failed''), s)
      else (Inr (),
            (case db_streams s streamId of
               None \<Rightarrow> s
             | Some doc \<Rightarrow> s\<lparr>db_streams := (db_streams s)(streamId \<mapsto> hset_all new_fields doc)\<rparr>)))"

subsection \<open>MessageQueue\<close>

text \<open>
  \<^verbatim>\<open>publishStreamEvent(event, data)\<close> and \<^verbatim>\<open>publishAnalyticsEvent(event, data)\<close>:
  without a channel they log and return; a rejected publish is caught and logged. Of the
  message, the exchange, the routing key and the stream id are kept.
\<close>

definition publishStreamEvent :: "string \<Rightarrow> string \<Rightarrow> state \<Rightarrow> state" where
  "publishStreamEvent event streamId s =
     (case mq s of
        NoChannel \<Rightarrow> logger Err ''RabbitMQ channel not initialized'' s
      | PublishThrows \<Rightarrow> logger Err ''Error publishing stream event'' s
      | PublishOk \<Rightarrow>
          logger Debug ''Stream event published''
            (s\<lparr>published := published s @ [(''stream.events'', ''stream.'' @ event, streamId)]\<rparr>))"

definition publishAnalyticsEvent :: "string \<Rightarrow> string \<Rightarrow> state \<Rightarrow> state" where
  "publishAnalyticsEvent event streamId s =
     (case mq s of
        NoChannel \<Rightarrow> logger Err ''Cannot publish: RabbitMQ channel not available'' s
      | PublishThrows \<Rightarrow> logger Err ''Error publishing analytics event'' s
      | PublishOk \<Rightarrow>
          logger Debug ''Analytics event published''
            (s\<lparr>published := published s @ [(''analytics.events'', event, streamId)]\<rparr>))"

section \<open>StreamService\<close>

text \<open>The truth value of a field that may be missing, and \<^verbatim>\<open>x || 0\<close>.\<close>

fun truthy :: "jsval option \<Rightarrow> bool" where
  "truthy None = False"
| "truthy (Some (JBool b)) = b"
| "truthy (Some (JNum n)) = (n \<noteq> 0)"
| "truthy (Some (JStr t)) = (t \<noteq> [])"
| "truthy (Some (JDate d)) = True"
| "truthy (Some JNaN) = False"

text \<open>
  \<^verbatim>\<open>stream.startedAt ? Date.now() - new Date(stream.startedAt).getTime() : 0\<close>:
  \<^verbatim>\<open>new Date\<close> of a number is that time, of \<^verbatim>\<open>true\<close> the time 1, and of a string
  that is no date an invalid date, whose time is \<^verbatim>\<open>NaN\<close>.
\<close>

fun duration_since :: "jsval option \<Rightarrow> int \<Rightarrow> jsval" where
  "duration_since (Some (JDate started)) now = JNum (now - started)"
| "duration_since (Some (JNum n)) now = (if n = 0 then JNum 0 else JNum (now - n))"
| "duration_since (Some (JBool b)) now = (if b then JNum (now - 1) else JNum 0)"
| "duration_since (Some (JStr t)) now = (if t = [] then JNum 0 else JNaN)"
| "duration_since (Some JNaN) now = JNum 0"
| "duration_since None now = JNum 0"

definition or0 :: "jsval option \<Rightarrow> jsval" where
  "or0 v = (case v of None \<Rightarrow> JNum 0 | Some x \<Rightarrow> if truthy v then x else JNum 0)"

text \<open>The \<^verbatim>\<open>streamData\<close> of a request; \<open>None\<close> is a missing field.\<close>

record streamData =
  sd_title :: string
  sd_description :: "string option"
  sd_category :: "string option"
  sd_isPrivate :: "bool option"
  sd_chatEnabled :: "bool option"
  sd_recordingEnabled :: "bool option"

text \<open>The object literal \<^verbatim>\<open>stream\<close> of \<^verbatim>\<open>createStream\<close>.\<close>

definition new_stream :: "string \<Rightarrow> string \<Rightarrow> streamData \<Rightarrow> int \<Rightarrow> hash" where
  "new_stream streamId userId sd now =
     [(''id'', JStr streamId),
      (''userId'', JStr userId),
      (''title'', JStr (sd_title sd)),
      (''description'', JStr (case sd_description sd of None \<Rightarrow> [] | Some d \<Rightarrow> d)),
      (''category'', JStr (case sd_category sd of None \<Rightarrow> [] | Some c \<Rightarrow> c)),
      (''isLive'', JBool False),
      (''isPrivate'', JBool (case sd_isPrivate sd of None \<Rightarrow> False | Some b \<Rightarrow> b)),
      (''createdAt'', JDate now),
      (''viewers'', JNum 0),
      (''maxViewers'', JNum 0),
      (''totalViews'', JNum 0),
      (''chatEnabled'', JBool (sd_chatEnabled sd \<noteq> Some False)),
      (''recordingEnabled'', JBool (case sd_recordingEnabled sd of None \<Rightarrow> False | Some b \<Rightarrow> b))]"

text \<open>
  \<^verbatim>\<open>createStream(userId, streamData)\<close>. \<open>streamId\<close> is the answer of \<^verbatim>\<open>uuidv4()\<close>,
  \<open>now\<close> the clock, \<open>routerRes\<close> the answer of the engine to \<^verbatim>\<open>createRoom\<close>.

  Modelled from the spec: \<^verbatim>\<open>CacheService.createStream\<close>, which this method calls, is
  not defined in the \<^verbatim>\<open>CacheService\<close> of the repository, so the call raises a
  \<^verbatim>\<open>TypeError\<close> there. Its outcome is the parameter \<open>cacheCreate\<close> (\<open>Some e\<close>: it
  throws \<open>e\<close>); where it returns, the stream is stored in the cache, which the spec names
  the source of truth for live state (section 6).
\<close>

definition StreamService_createStream ::
  "state \<Rightarrow> string \<Rightarrow> streamData \<Rightarrow> string \<Rightarrow> int \<Rightarrow> error + string \<Rightarrow> error option \<Rightarrow>
     (error + hash) \<times> state" where
  "StreamService_createStream s userId sd streamId now routerRes cacheCreate =
     (let stream = new_stream streamId userId sd now in
      case createRoom s streamId (nat now) routerRes of
        (Inl e, s1) \<Rightarrow> (Inl e, logger Err ''Error creating stream'' s1)
      | (Inr room, s1) \<Rightarrow>
          (case cacheCreate of
             Some e \<Rightarrow> (Inl e, logger Err ''Error creating stream'' s1)
           | None \<Rightarrow>
               (let s2 = s1\<lparr>cache_streams := (cache_streams s1)(streamId \<mapsto> stream)\<rparr>;
                    s3 = (case Stream_save s2 streamId stream of
                            (Inl dbError, t) \<Rightarrow>
                              logger Warn ''Database save failed, continuing with cache'' t
                          | (Inr u, t) \<Rightarrow> t);
                    s4 = publishStreamEvent ''create'' streamId s3
                in (Inr stream, logger Info ''Stream created'' s4))))"

text \<open>The test \<^verbatim>\<open>stream && !stream.isLive\<close> on the answer of \<^verbatim>\<open>getStream\<close>.\<close>

definition not_yet_live :: "hash option \<Rightarrow> bool" where
  "not_yet_live stream =
     (case stream of None \<Rightarrow> False | Some h \<Rightarrow> \<not> truthy (map_of h ''isLive''))"

text \<open>
  \<^verbatim>\<open>produce(roomId, userId, transportId, rtpParameters, kind)\<close> of
  \<^verbatim>\<open>StreamService\<close>. The update of the cache is under the test
  \<^verbatim>\<open>stream && !stream.isLive\<close>; the update of the database and the two publications
  follow it unconditionally.
\<close>

definition StreamService_produce ::
  "state \<Rightarrow> string \<Rightarrow> string \<Rightarrow> string \<Rightarrow> string \<Rightarrow> error + string \<Rightarrow> int \<Rightarrow>
     (error + producer) \<times> state" where
  "StreamService_produce s roomId userId transportId kind produceRes now =
     (case produce s roomId userId transportId kind produceRes of
        (Inl e, s1) \<Rightarrow> (Inl e, logger Err ''Error creating producer'' s1)
      | (Inr new_producer, s1) \<Rightarrow>
          (case CacheService_getStream s1 roomId of
             (stream, s2) \<Rightarrow>
               (case (if not_yet_live stream
                      then CacheService_updateStream s2 roomId
                             [(''isLive'', JBool True), (''startedAt'', JDate now)]
                      else (Inr (), s2)) of
                  (Inl e, s3) \<Rightarrow> (Inl e, logger Err ''Error creating producer'' s3)
                | (Inr u, s3) \<Rightarrow>
                    (let s4 = (case Stream_updateOne s3 roomId
                                      [(''isLive'', JBool True), (''startedAt'', JDate now)] of
                                 (Inl dbError, t) \<Rightarrow> logger Warn ''Database update failed'' t
                               | (Inr u, t) \<Rightarrow> t);
                         s5 = publishStreamEvent ''started'' roomId s4;
                         s6 = publishAnalyticsEvent ''producer.created'' roomId s5
                     in (Inr new_producer, logger Info ''Producer Created'' s6)))))"

text \<open>
  \<^verbatim>\<open>endStream(streamId, userId)\<close>. \<open>finalStats\<close> is the answer of
  \<^verbatim>\<open>getStreamStats\<close>. The last step schedules \<^verbatim>\<open>deleteStream\<close> 30000 ms later and
  returns without waiting for it.
\<close>

definition StreamService_endStream ::
  "state \<Rightarrow> string \<Rightarrow> string \<Rightarrow> int \<Rightarrow> hash \<Rightarrow> (error + hash) \<times> state" where
  "StreamService_endStream s streamId userId now finalStats =
     (case CacheService_getStream s streamId of
        (None, s1) \<Rightarrow> (Inl (Error ''Stream not found''), logger Err ''Error ending stream'' s1)
      | (Some stream, s1) \<Rightarrow>
          (let s2 = closeParticipant s1 streamId userId;
               streamUpdate =
                 [(''isLive'', JBool False),
                  (''endedAt'', JDate now),
                  (''duration'', duration_since (map_of stream ''startedAt'') now),
                  (''maxViewers'', or0 (map_of finalStats ''maxViewers'')),
                  (''totalViews'', or0 (map_of finalStats ''views'')),
                  (''totalChatMessages'', or0 (map_of finalStats ''chatMessages''))]
           in case CacheService_updateStream s2 streamId streamUpdate of
                (Inl e, s3) \<Rightarrow> (Inl e, logger Err ''Error ending stream'' s3)
              | (Inr u, s3) \<Rightarrow>
                  (let s4 = (case Stream_updateOne s3 streamId streamUpdate of
                               (Inl dbError, t) \<Rightarrow> logger Warn ''Database update failed'' t
                             | (Inr u, t) \<Rightarrow> t);
                       s5 = publishStreamEvent ''ended'' streamId s4;
                       s6 = publishAnalyticsEvent ''stream.ended'' streamId s5;
                       s7 = logger Info ''Stream ended'' s6
                   in (Inr streamUpdate, s7\<lparr>timers := timers s7 @ [(now + 30000, streamId)]\<rparr>))))"

text \<open>The event loop at time \<open>t\<close>: the callbacks that are due run, in the order in which
  they were scheduled, and leave the list.\<close>

definition run_due_timers :: "int \<Rightarrow> state \<Rightarrow> state" where
  "run_due_timers t s =
     fold (\<lambda>(due, streamId) s'. CacheService_deleteStream s' streamId)
          (filter (\<lambda>(due, streamId). due \<le> t) (timers s))
          (s\<lparr>timers := filter (\<lambda>(due, streamId). \<not> due \<le> t) (timers s)\<rparr>)"

text \<open>What the live operation leaves behind, apart from the database, the message queue
  and the log: the media state, the calls on the engine, the cache and the timers.\<close>

definition live_state ::
  "state \<Rightarrow> worker list \<times> nat option \<times> room js_map \<times> engine_op list \<times> bool \<times>
     (string \<rightharpoonup> hash) \<times> (int \<times> string) list" where
  "live_state s =
     (workers s, workerIndex s, rooms s, engine s, cache_up s, cache_streams s, timers s)"

text \<open>The number of publications of an event on the stream-events exchange.\<close>

definition count_events :: "state \<Rightarrow> string \<Rightarrow> string \<Rightarrow> nat" where
  "count_events s event streamId =
     length (filter (\<lambda>m. m = (''stream.events'', ''stream.'' @ event, streamId)) (published s))"

text \<open>
  A consumer is closed and gone: it is no longer in the consumer set of its owner, and
  \<^verbatim>\<open>consumer.close()\<close> was called on it.
\<close>

definition closed_gone :: "state \<Rightarrow> string \<Rightarrow> string \<Rightarrow> string \<Rightarrow> bool" where
  "closed_gone s roomId userId cid \<longleftrightarrow>
     consumer_of s roomId userId cid = None \<and> CloseConsumer cid \<in> set (engine s)"

text \<open>
  What every close handler, and so every cascade, keeps of a state: the routers of the
  rooms, the presence of the participants, every consumer that it does not close, and the
  record of the calls on the engine. It is used in the proofs only.
\<close>

definition keeps :: "state \<Rightarrow> state \<Rightarrow> bool" where
  "keeps s s' \<longleftrightarrow>
     (\<forall>rid. map_option router (map_of (rooms s') rid) = map_option router (map_of (rooms s) rid)) \<and>
     (\<forall>rid uid. (part_of s' rid uid = None) = (part_of s rid uid = None)) \<and>
     (\<forall>rid uid cid. consumer_of s' rid uid cid = consumer_of s rid uid cid \<or>
                     closed_gone s' rid uid cid) \<and>
     set (engine s) \<subseteq> set (engine s')"

text \<open>
  A session used to instantiate the theorems: on a pool of two workers, user A opens a
  send transport in room r1 and produces video on it; user B opens a send transport, then
  a receive transport, and consumes the video.
\<close>

definition demo1 :: state where
  "demo1 = snd (createWebRtcTransport (initialize 2) ''r1'' ''A'' ''send'' 1
                  (Inr ''R1'') (Inr (''tA'', ''hs'')))"

definition demo2 :: state where
  "demo2 = snd (produce demo1 ''r1'' ''A'' ''tA'' ''video'' (Inr ''pA''))"

definition demo3 :: state where
  "demo3 = snd (createWebRtcTransport demo2 ''r1'' ''B'' ''send'' 2
                  (Inr ''R2'') (Inr (''tB0'', ''hs'')))"

definition demo4 :: state where
  "demo4 = snd (createWebRtcTransport demo3 ''r1'' ''B'' ''recv'' 3
                  (Inr ''R3'') (Inr (''tB'', ''hs'')))"

definition demo5 :: state where
  "demo5 = snd (consume demo4 ''r1'' ''B'' ''pA'' True (Inr (''cB'', ''video'', ''rtp'')))"

text \<open>The same state with other states of the database and of the message queue.\<close>

definition with_collab :: "bool \<Rightarrow> mq_status \<Rightarrow> state \<Rightarrow> state" where
  "with_collab d m s = s\<lparr>db_up := d, mq := m\<rparr>"

text \<open>
  The lines that the logger received between the state \<open>s\<close>, in which an operation is
  called, and the state \<open>t\<close>, which it leaves. A line is the level of the call on the
  logger and the constant text that opens its message, as in \<open>logger\<close>.
\<close>

definition logged_since :: "state \<Rightarrow> state \<Rightarrow> (level \<times> string) list" where
  "logged_since s t = drop (length (logs s)) (logs t)"

text \<open>
  The state \<open>t\<close> comes after \<open>s\<close> in one operation: the database and the message queue
  are as they were, and the log has only grown. It is used in the proofs only.
\<close>

definition follows :: "state \<Rightarrow> state \<Rightarrow> bool" where
  "follows s t \<longleftrightarrow>
     db_up t = db_up s \<and> mq t = mq s \<and> take (length (logs s)) (logs t) = logs s"

text \<open>The cache of a state.\<close>

definition cache_view :: "state \<Rightarrow> bool \<times> (string \<rightharpoonup> hash)" where
  "cache_view s = (cache_up s, cache_streams s)"

text \<open>
  A stream used to instantiate the theorems: the stream of room r1 is in the cache and in
  the database (\<open>live1\<close>), user A produces video at time 100 (\<open>live2\<close>) and audio at
  time 200 (\<open>live3\<close>), and ends the stream at time 1000 (\<open>ended1\<close>). \<open>started_stream t\<close> is
  the record of the stream with the start time \<open>t\<close>.
\<close>

definition demo_stream :: hash where
  "demo_stream = new_stream ''r1'' ''A''
     \<lparr>sd_title = ''show'', sd_description = None, sd_category = None, sd_isPrivate = None,
      sd_chatEnabled = None, sd_recordingEnabled = None\<rparr> 0"

definition live1 :: state where
  "live1 = snd (Stream_save (snd (CacheService_updateStream demo1 ''r1'' demo_stream))
                  ''r1'' demo_stream)"

definition live2 :: state where
  "live2 = snd (StreamService_produce live1 ''r1'' ''A'' ''tA'' ''video'' (Inr ''pV'') 100)"

definition live3 :: state where
  "live3 = snd (StreamService_produce live2 ''r1'' ''A'' ''tA'' ''audio'' (Inr ''pAu'') 200)"

definition ended1 :: state where
  "ended1 = snd (StreamService_endStream live3 ''r1'' ''A'' 1000 [])"

definition started_stream :: "int \<Rightarrow> hash" where
  "started_stream t = hset_all [(''isLive'', JBool True), (''startedAt'', JDate t)] demo_stream"

section \<open>Properties\<close>

subsection \<open>Round-robin assignment of workers\<close>

lemma indexOf_nth:
  "distinct xs \<Longrightarrow> i < length xs \<Longrightarrow> indexOf xs (xs ! i) = int i"
proof (induction xs arbitrary: i)
  case Nil
  then show ?case by simp
next
  case (Cons y ys)
  show ?case
  proof (cases i)
    case 0
    then show ?thesis by simp
  next
    case (Suc j)
    with Cons.prems have j: "j < length ys" and dys: "distinct ys" and ne: "y \<noteq> ys ! j"
      by auto
    from Cons.IH [OF dys j] have "indexOf ys (ys ! j) = int j" .
    with Suc ne show ?thesis by (simp add: Let_def)
  qed
qed

lemma createRoom_new:
  assumes "map_of (rooms s) roomId = None" and "workerIndex s = Some w"
    and "w < length (workers s)" and "distinct (workers s)"
  shows "createRoom s roomId now (Inr rtr) =
     (Inr \<lparr>room_id = roomId, router = rtr, participants = [], createdAt = now,
           room_workerIndex = int w\<rparr>,
      s\<lparr>workerIndex := Some ((w + 1) mod length (workers s)),
        engine := engine s @ [NewRouter rtr],
        rooms := AList.update roomId
           \<lparr>room_id = roomId, router = rtr, participants = [], createdAt = now,
            room_workerIndex = int w\<rparr> (rooms s),
        logs := logs s @ [(Info, ''Room created'')]\<rparr>)"
  using assms
  by (auto simp add: createRoom_def getNextWorker_def engine_did_def logger_def Let_def indexOf_nth)

lemma createRooms_round_robin:
  assumes "distinct (map fst reqs)" and "\<forall>r \<in> set reqs. map_of (rooms s) (fst r) = None"
    and "workerIndex s = Some w" and "w < length (workers s)" and "distinct (workers s)"
  shows "map assigned (fst (createRooms s reqs)) =
         map (\<lambda>k. Some (int ((w + k) mod length (workers s)))) [0..<length reqs]"
  using assms
proof (induction reqs arbitrary: s w)
  case Nil
  then show ?case by simp
next
  case (Cons req reqs)
  obtain roomId now rtr where req: "req = (roomId, now, rtr)" by (cases req) auto
  let ?n = "length (workers s)"
  let ?rm = "\<lparr>room_id = roomId, router = rtr, participants = [], createdAt = now,
             room_workerIndex = int w\<rparr>"
  let ?s1 = "s\<lparr>workerIndex := Some ((w + 1) mod ?n),
        engine := engine s @ [NewRouter rtr],
        rooms := AList.update roomId ?rm (rooms s),
        logs := logs s @ [(Info, ''Room created'')]\<rparr>"
  have fresh: "map_of (rooms s) roomId = None" using Cons.prems(2) req by simp
  have step: "createRoom s roomId now (Inr rtr) = (Inr ?rm, ?s1)"
    using createRoom_new [OF fresh Cons.prems(3) Cons.prems(4) Cons.prems(5)] .
  have d: "distinct (map fst reqs)" using Cons.prems(1) by simp
  have notin: "\<forall>r \<in> set reqs. map_of (rooms ?s1) (fst r) = None"
  proof
    fix r assume r: "r \<in> set reqs"
    then have "fst r \<noteq> roomId" using Cons.prems(1) req by force
    moreover have "map_of (rooms s) (fst r) = None" using Cons.prems(2) r by simp
    ultimately show "map_of (rooms ?s1) (fst r) = None"
      by (simp add: update_conv')
  qed
  have n0: "0 < ?n" using Cons.prems(4) by auto
  have w1: "(w + 1) mod ?n < length (workers ?s1)" using n0 by simp
  have IH: "map assigned (fst (createRooms ?s1 reqs)) =
      map (\<lambda>k. Some (int (((w + 1) mod ?n + k) mod ?n))) [0..<length reqs]"
    using Cons.IH [OF d notin _ w1] Cons.prems(5) by simp
  have shift: "map (\<lambda>k. Some (int ((w + k) mod ?n))) [0..<length (req # reqs)] =
      Some (int (w mod ?n)) # map (\<lambda>k. Some (int (((w + 1) mod ?n + k) mod ?n))) [0..<length reqs]"
  proof -
    have "[0..<length (req # reqs)] = 0 # map Suc [0..<length reqs]"
      by (simp add: upt_conv_Cons map_Suc_upt del: upt_Suc)
    then show ?thesis by (simp add: comp_def mod_add_left_eq del: upt_Suc)
  qed
  have "map assigned (fst (createRooms s (req # reqs))) =
      Some (int w) # map assigned (fst (createRooms ?s1 reqs))"
    using step req by (simp add: assigned_def split: prod.splits)
  with IH shift Cons.prems(4) show ?case by simp
qed

text \<open>
  C7. Worker assignment is round-robin by index: from the freshly initialised service with
  a pool of \<open>N = min cpus 8 > 0\<close> workers, the \<open>k\<close>-th creation of a new room
  (counting from 0, each answered by the engine with a router) is assigned the worker at
  index \<open>k mod N\<close>.
\<close>

theorem createRoom_round_robin:
  assumes "0 < cpus" and "distinct (map fst reqs)"
  shows "map assigned (fst (createRooms (initialize cpus) reqs)) =
         map (\<lambda>k. Some (int (k mod min cpus 8))) [0..<length reqs]"
proof -
  let ?s = "initialize cpus"
  have a: "\<forall>r \<in> set reqs. map_of (rooms ?s) (fst r) = None" by (simp add: initialize_def)
  have b: "workerIndex ?s = Some 0" by (simp add: initialize_def)
  have c: "0 < length (workers ?s)" using assms(1) by (simp add: initialize_def)
  have d: "distinct (workers ?s)" by (simp add: initialize_def distinct_map inj_on_def)
  have e: "length (workers ?s) = min cpus 8" by (simp add: initialize_def)
  show ?thesis using createRooms_round_robin [OF assms(2) a b c d] e by simp
qed

text \<open>With a pool of size 3, creating 4 rooms assigns the workers 0, 1, 2, 0.\<close>

theorem createRoom_round_robin_witness:
  "map assigned (fst (createRooms (initialize 3)
      [(''r0'', 10, ''router0''), (''r1'', 11, ''router1''),
       (''r2'', 12, ''router2''), (''r3'', 13, ''router3'')])) =
   [Some 0, Some 1, Some 2, Some 0]"
proof -
  have "(0::nat) < 3" by simp
  moreover have "distinct (map fst [(''r0'', 10::nat, ''router0''), (''r1'', 11, ''router1''),
       (''r2'', 12, ''router2''), (''r3'', 13, ''router3'')])" by simp
  ultimately show ?thesis
    using createRoom_round_robin [of 3 "[(''r0'', 10, ''router0''), (''r1'', 11, ''router1''),
       (''r2'', 12, ''router2''), (''r3'', 13, ''router3'')]"]
    by (simp add: upt_rec)
qed

subsection \<open>The session used in the instances\<close>

lemma rooms_demo1:
  "rooms demo1 =
    [(''r1'', \<lparr>room_id = ''r1'', router = ''R1'',
       participants =
        [(''A'', \<lparr>part_id = ''A'',
             transports = [(''tA'', \<lparr>t_id = ''tA'', t_userId = ''A'', t_direction = ''send'', t_params = ''hs''\<rparr>)],
             producers = [], consumers = [], joinedAt = 1\<rparr>)],
       createdAt = 1, room_workerIndex = 0\<rparr>)]"
  by (simp add: demo1_def createWebRtcTransport_def createRoom_def getNextWorker_def
      engine_did_def logger_def Let_def initialize_def upt_rec)

lemma rooms_demo2:
  "rooms demo2 =
    [(''r1'', \<lparr>room_id = ''r1'', router = ''R1'',
       participants =
        [(''A'', \<lparr>part_id = ''A'',
             transports = [(''tA'', \<lparr>t_id = ''tA'', t_userId = ''A'', t_direction = ''send'', t_params = ''hs''\<rparr>)],
             producers = [(''pA'', \<lparr>p_id = ''pA'', p_kind = ''video'', p_userId = ''A'', p_transport = ''tA''\<rparr>)],
             consumers = [], joinedAt = 1\<rparr>)],
       createdAt = 1, room_workerIndex = 0\<rparr>)]"
  by (simp add: demo2_def produce_def rooms_demo1 engine_did_def logger_def Let_def)

lemma rooms_demo3:
  "rooms demo3 =
    [(''r1'', \<lparr>room_id = ''r1'', router = ''R1'',
       participants =
        [(''A'', \<lparr>part_id = ''A'',
             transports = [(''tA'', \<lparr>t_id = ''tA'', t_userId = ''A'', t_direction = ''send'', t_params = ''hs''\<rparr>)],
             producers = [(''pA'', \<lparr>p_id = ''pA'', p_kind = ''video'', p_userId = ''A'', p_transport = ''tA''\<rparr>)],
             consumers = [], joinedAt = 1\<rparr>),
         (''B'', \<lparr>part_id = ''B'',
             transports = [(''tB0'', \<lparr>t_id = ''tB0'', t_userId = ''B'', t_direction = ''send'', t_params = ''hs''\<rparr>)],
             producers = [], consumers = [], joinedAt = 2\<rparr>)],
       createdAt = 1, room_workerIndex = 0\<rparr>)]"
  by (simp add: demo3_def createWebRtcTransport_def createRoom_def rooms_demo2
      engine_did_def logger_def Let_def)

lemma rooms_demo4:
  "rooms demo4 =
    [(''r1'', \<lparr>room_id = ''r1'', router = ''R1'',
       participants =
        [(''A'', \<lparr>part_id = ''A'',
             transports = [(''tA'', \<lparr>t_id = ''tA'', t_userId = ''A'', t_direction = ''send'', t_params = ''hs''\<rparr>)],
             producers = [(''pA'', \<lparr>p_id = ''pA'', p_kind = ''video'', p_userId = ''A'', p_transport = ''tA''\<rparr>)],
             consumers = [], joinedAt = 1\<rparr>),
         (''B'', \<lparr>part_id = ''B'',
             transports = [(''tB0'', \<lparr>t_id = ''tB0'', t_userId = ''B'', t_direction = ''send'', t_params = ''hs''\<rparr>),
                           (''tB'', \<lparr>t_id = ''tB'', t_userId = ''B'', t_direction = ''recv'', t_params = ''hs''\<rparr>)],
             producers = [], consumers = [], joinedAt = 2\<rparr>)],
       createdAt = 1, room_workerIndex = 0\<rparr>)]"
  by (simp add: demo4_def createWebRtcTransport_def createRoom_def rooms_demo3
      engine_did_def logger_def Let_def)

lemma rooms_demo5:
  "rooms demo5 =
    [(''r1'', \<lparr>room_id = ''r1'', router = ''R1'',
       participants =
        [(''A'', \<lparr>part_id = ''A'',
             transports = [(''tA'', \<lparr>t_id = ''tA'', t_userId = ''A'', t_direction = ''send'', t_params = ''hs''\<rparr>)],
             producers = [(''pA'', \<lparr>p_id = ''pA'', p_kind = ''video'', p_userId = ''A'', p_transport = ''tA''\<rparr>)],
             consumers = [], joinedAt = 1\<rparr>),
         (''B'', \<lparr>part_id = ''B'',
             transports = [(''tB0'', \<lparr>t_id = ''tB0'', t_userId = ''B'', t_direction = ''send'', t_params = ''hs''\<rparr>),
                           (''tB'', \<lparr>t_id = ''tB'', t_userId = ''B'', t_direction = ''recv'', t_params = ''hs''\<rparr>)],
             producers = [],
             consumers = [(''cB'', \<lparr>c_id = ''cB'', c_kind = ''video'', c_rtpParameters = ''rtp'',
                            c_producerId = ''pA'', c_userId = ''B'', c_transport = ''tB'', c_paused = True\<rparr>)],
             joinedAt = 2\<rparr>)],
       createdAt = 1, room_workerIndex = 0\<rparr>)]"
  by (simp add: demo5_def consume_def find_recv_def rooms_demo4
      engine_did_def logger_def Let_def)

subsection \<open>Idempotence of createRoom\<close>

lemma createRoom_Inr:
  assumes "createRoom s roomId now routerRes = (Inr room, s1)"
  shows "map_of (rooms s1) roomId = Some room"
    and "map_of (participants room) userId = part_of s roomId userId"
  using assms
  by (auto simp add: createRoom_def getNextWorker_def engine_did_def logger_def Let_def
        part_of_def update_conv' split: option.splits sum.splits prod.splits if_splits)

text \<open>
  C8. \<^verbatim>\<open>createRoom\<close> is idempotent: for a registered room the call returns that room
  and leaves the whole state as it was (no router is created, the round-robin index does
  not move); and after a call that returned a room, a second call for the same id returns
  the same room and changes nothing, so that the two calls created exactly one router if
  the room was new and none if it existed.
\<close>

theorem createRoom_idempotent:
  "(map_of (rooms s) roomId = Some room \<longrightarrow> createRoom s roomId now routerRes = (Inr room, s)) \<and>
   (createRoom s roomId now1 res1 = (Inr room1, s1) \<longrightarrow>
      createRoom s1 roomId now2 res2 = (Inr room1, s1) \<and>
      routers_created s1 =
        routers_created s @ (if map_of (rooms s) roomId = None then [router room1] else []))"
proof (intro conjI impI)
  assume "map_of (rooms s) roomId = Some room"
  then show "createRoom s roomId now routerRes = (Inr room, s)"
    by (simp add: createRoom_def)
next
  assume a: "createRoom s roomId now1 res1 = (Inr room1, s1)"
  from createRoom_Inr(1) [OF a] show "createRoom s1 roomId now2 res2 = (Inr room1, s1)"
    by (simp add: createRoom_def)
next
  assume a: "createRoom s roomId now1 res1 = (Inr room1, s1)"
  then show "routers_created s1 =
        routers_created s @ (if map_of (rooms s) roomId = None then [router room1] else [])"
    by (auto simp add: createRoom_def getNextWorker_def engine_did_def logger_def Let_def
        routers_created_def split: option.splits sum.splits prod.splits if_splits)
qed

theorem createRoom_idempotent_witness:
  "createRoom (snd (createRoom (initialize 2) ''s1'' 5 (Inr ''R1''))) ''s1'' 6 (Inr ''R2'') =
     createRoom (initialize 2) ''s1'' 5 (Inr ''R1'') \<and>
   routers_created (snd (createRoom (snd (createRoom (initialize 2) ''s1'' 5 (Inr ''R1''))) ''s1'' 6 (Inr ''R2''))) = [''R1'']"
proof -
  obtain room1 s1 where a: "createRoom (initialize 2) ''s1'' 5 (Inr ''R1'') = (Inr room1, s1)"
    and r: "router room1 = ''R1''"
    by (simp add: createRoom_def getNextWorker_def engine_did_def logger_def Let_def initialize_def)
  have n: "map_of (rooms (initialize 2)) ''s1'' = None" by (simp add: initialize_def)
  have e: "routers_created (initialize 2) = []" by (simp add: initialize_def routers_created_def)
  from createRoom_idempotent [of "initialize 2" "''s1''" room1 5 "Inr ''R1''" 5 "Inr ''R1''" room1 s1 6 "Inr ''R2''"]
  show ?thesis using a r n e by simp
qed

subsection \<open>closeParticipant\<close>

lemma part_of_closeParticipant: "part_of (closeParticipant s roomId userId) roomId userId = None"
  by (auto simp add: closeParticipant_def part_of_def Let_def logger_def engine_did_def
       map_of_map_entry delete_conv' split: option.splits)

text \<open>
  C10. \<^verbatim>\<open>closeParticipant\<close> has no failing path (its result is a state), it leaves the
  state unchanged when the room or the participant does not exist, and calling it twice
  for the same user is the same as calling it once.
\<close>

theorem closeParticipant_idempotent:
  "(part_of s roomId userId = None \<longrightarrow> closeParticipant s roomId userId = s) \<and>
   closeParticipant (closeParticipant s roomId userId) roomId userId =
     closeParticipant s roomId userId"
proof -
  have a: "closeParticipant t roomId userId = t" if "part_of t roomId userId = None" for t
    using that by (auto simp add: closeParticipant_def part_of_def split: option.splits)
  show ?thesis using a part_of_closeParticipant by blast
qed

theorem closeParticipant_idempotent_witness:
  "closeParticipant (initialize 2) ''r1'' ''A'' = initialize 2 \<and>
   closeParticipant (closeParticipant demo5 ''r1'' ''A'') ''r1'' ''A'' =
     closeParticipant demo5 ''r1'' ''A''"
proof -
  have n: "part_of (initialize 2) ''r1'' ''A'' = None"
    by (simp add: part_of_def initialize_def)
  show ?thesis
    using closeParticipant_idempotent [of "initialize 2" "''r1''" "''A''"] n
      closeParticipant_idempotent [of demo5 "''r1''" "''A''"]
    by blast
qed

subsection \<open>The cascade of the close handlers\<close>

lemma keeps_refl: "keeps s s"
  by (simp add: keeps_def)

lemma keeps_trans: "keeps s t \<Longrightarrow> keeps t u \<Longrightarrow> keeps s u"
  unfolding keeps_def closed_gone_def
  apply (intro conjI allI)
     apply simp
    apply simp
   apply (metis subsetD)
  apply blast
  done

lemma keeps_closed_gone: "keeps s t \<Longrightarrow> closed_gone s r u c \<Longrightarrow> closed_gone t r u c"
  unfolding keeps_def closed_gone_def by (metis subsetD)

lemma keeps_fold:
  assumes "\<And>x s. keeps s (f x s)"
  shows "keeps s (fold f xs s)"
proof (induction xs arbitrary: s)
  case Nil
  show ?case by (simp add: keeps_refl)
next
  case (Cons x xs)
  have "keeps s (f x s)" by (rule assms)
  moreover have "keeps (f x s) (fold f xs (f x s))" by (rule Cons.IH)
  ultimately show ?case using keeps_trans by simp
qed

lemma rooms_on_participant:
  "map_of (rooms (on_participant r u f s)) rid =
     (if rid = r
      then map_option (\<lambda>rm. rm\<lparr>participants := AList.map_entry u f (participants rm)\<rparr>)
             (map_of (rooms s) r)
      else map_of (rooms s) rid)"
  by (simp add: on_participant_def map_of_map_entry split: option.splits)

lemma part_of_on_participant:
  "part_of (on_participant r u f s) rid uid =
     (if rid = r \<and> uid = u then map_option f (part_of s r u) else part_of s rid uid)"
  by (auto simp add: part_of_def rooms_on_participant map_of_map_entry split: option.splits)

lemma engine_on_participant: "engine (on_participant r u f s) = engine s"
  by (simp add: on_participant_def)

lemma part_of_engine_did: "part_of (engine_did op s) rid uid = part_of s rid uid"
  by (simp add: part_of_def engine_did_def)

lemma engine_engine_did: "engine (engine_did op s) = engine s @ [op]"
  by (simp add: engine_did_def)

lemma rooms_engine_did: "rooms (engine_did op s) = rooms s"
  by (simp add: engine_did_def)

lemma keeps_engine_did: "keeps s (engine_did op s)"
  by (auto simp add: keeps_def consumer_of_def part_of_def engine_did_def)

lemma keeps_producer_handler: "keeps s (producer_on_transportclose r u pid s)"
  unfolding keeps_def closed_gone_def consumer_of_def producer_on_transportclose_def
  by (auto simp add: rooms_on_participant part_of_on_participant engine_on_participant
      part_of_engine_did engine_engine_did rooms_engine_did option.map_comp comp_def
      split: option.splits)

lemma consumer_of_remove:
  "consumer_of (on_participant r u (\<lambda>p. p\<lparr>consumers := AList.delete cid (consumers p)\<rparr>)
       (engine_did op s)) rid uid cid' =
     (if rid = r \<and> uid = u \<and> cid' = cid then None else consumer_of s rid uid cid')"
  by (auto simp add: consumer_of_def part_of_on_participant part_of_engine_did delete_conv'
      split: option.splits)

lemma keeps_remove:
  "keeps s (on_participant r u (\<lambda>p. p\<lparr>consumers := AList.delete cid (consumers p)\<rparr>)
       (engine_did (CloseConsumer cid) s))"
  unfolding keeps_def closed_gone_def
  apply (intro conjI allI)
     apply (simp add: rooms_on_participant rooms_engine_did option.map_comp comp_def)
    apply (simp add: part_of_on_participant part_of_engine_did)
   apply (simp add: consumer_of_remove engine_on_participant engine_engine_did)
  apply (auto simp add: engine_on_participant engine_engine_did)
  done

lemma closed_gone_remove:
  "closed_gone (on_participant r u (\<lambda>p. p\<lparr>consumers := AList.delete cid (consumers p)\<rparr>)
       (engine_did (CloseConsumer cid) s)) r u cid"
  by (simp add: closed_gone_def consumer_of_remove engine_on_participant engine_engine_did)

lemma keeps_consumer_handlers:
  "keeps s (consumer_on_transportclose r u cid s)"
  "keeps s (consumer_on_producerclose r u cid s)"
  by (simp_all add: consumer_on_transportclose_def consumer_on_producerclose_def keeps_remove)

lemma keeps_producer_closed: "keeps s (producer_closed r pid s)"
proof (cases "map_of (rooms s) r")
  case None
  then show ?thesis by (simp add: producer_closed_def keeps_refl)
next
  case (Some room)
  have "keeps s (fold (\<lambda>(uid, cid). consumer_on_producerclose r uid cid) xs s)" for xs
    by (rule keeps_fold) (auto simp add: keeps_consumer_handlers)
  then show ?thesis using Some by (simp add: producer_closed_def)
qed

lemma keeps_transport_close: "keeps s (transport_close r u tid s)"
proof -
  let ?s0 = "engine_did (CloseTransport tid) s"
  have a: "keeps s ?s0" by (rule keeps_engine_did)
  have b: "keeps t (fold (producer_closed r) ps (fold (consumer_on_transportclose r u) cs
              (fold (producer_on_transportclose r u) ps t)))" for t ps cs
  proof -
    have "keeps t (fold (producer_on_transportclose r u) ps t)"
      by (rule keeps_fold) (rule keeps_producer_handler)
    moreover have "keeps x (fold (consumer_on_transportclose r u) cs x)" for x
      by (rule keeps_fold) (rule keeps_consumer_handlers)
    moreover have "keeps x (fold (producer_closed r) ps x)" for x
      by (rule keeps_fold) (rule keeps_producer_closed)
    ultimately show ?thesis using keeps_trans by blast
  qed
  show ?thesis
    unfolding transport_close_def Let_def
    using a b [of ?s0] keeps_trans [OF a]
    by (auto split: option.splits)
qed

lemma keeps_close_all: "keeps s (fold (transport_close r u) tids s)"
  by (rule keeps_fold) (rule keeps_transport_close)


lemma fold_transportclose_gone:
  "cid \<in> set cids \<Longrightarrow> closed_gone (fold (consumer_on_transportclose r u) cids s) r u cid"
proof (induction cids arbitrary: s)
  case Nil
  then show ?case by simp
next
  case (Cons x xs)
  show ?case
  proof (cases "cid = x")
    case True
    have "closed_gone (consumer_on_transportclose r u x s) r u x"
      by (simp add: consumer_on_transportclose_def closed_gone_remove)
    moreover have "keeps (consumer_on_transportclose r u x s)
        (fold (consumer_on_transportclose r u) xs (consumer_on_transportclose r u x s))"
      by (rule keeps_fold) (rule keeps_consumer_handlers)
    ultimately show ?thesis using True keeps_closed_gone by simp
  next
    case False
    then have "cid \<in> set xs" using Cons.prems by simp
    then show ?thesis using Cons.IH by simp
  qed
qed

lemma fold_producerclose_gone:
  "(u, cid) \<in> set L \<Longrightarrow>
   closed_gone (fold (\<lambda>(uid, cid). consumer_on_producerclose r uid cid) L s) r u cid"
proof (induction L arbitrary: s)
  case Nil
  then show ?case by simp
next
  case (Cons x xs)
  obtain xu xc where x: "x = (xu, xc)" by (cases x) auto
  show ?case
  proof (cases "(u, cid) = x")
    case True
    have g: "closed_gone (consumer_on_producerclose r u cid s) r u cid"
      by (simp add: consumer_on_producerclose_def closed_gone_remove)
    have k: "keeps (consumer_on_producerclose r u cid s)
        (fold (\<lambda>(uid, cid). consumer_on_producerclose r uid cid) xs
           (consumer_on_producerclose r u cid s))"
      by (rule keeps_fold) (auto simp add: keeps_consumer_handlers)
    have "closed_gone (fold (\<lambda>(uid, cid). consumer_on_producerclose r uid cid) xs
           (consumer_on_producerclose r u cid s)) r u cid"
      using k g by (rule keeps_closed_gone)
    then show ?thesis using True [symmetric] by simp
  next
    case False
    then have "(u, cid) \<in> set xs" using Cons.prems by auto
    then show ?thesis using Cons.IH by simp
  qed
qed

lemma producer_closed_gone:
  assumes "consumer_of t r u cid = Some c" and "c_producerId c = pid"
  shows "closed_gone (producer_closed r pid t) r u cid"
proof -
  from assms(1) obtain room p where room: "map_of (rooms t) r = Some room"
    and p: "map_of (participants room) u = Some p" and c: "map_of (consumers p) cid = Some c"
    by (auto simp add: consumer_of_def part_of_def split: option.splits)
  have "(u, p) \<in> set (participants room)" using p by (rule map_of_SomeD)
  moreover have "(cid, c) \<in> set (consumers p)" using c by (rule map_of_SomeD)
  ultimately have "(u, cid) \<in> set (consumers_of room pid)"
    using assms(2) by (force simp add: consumers_of_def)
  then show ?thesis using room by (simp add: producer_closed_def fold_producerclose_gone)
qed

lemma fold_producer_closed_gone:
  assumes "pid \<in> set pids"
    and "(\<exists>c. consumer_of t r u cid = Some c \<and> c_producerId c = pid) \<or> closed_gone t r u cid"
  shows "closed_gone (fold (producer_closed r) pids t) r u cid"
  using assms
proof (induction pids arbitrary: t)
  case Nil
  then show ?case by simp
next
  case (Cons q qs)
  let ?t1 = "producer_closed r q t"
  have k: "keeps t ?t1" by (rule keeps_producer_closed)
  have kf: "keeps ?t1 (fold (producer_closed r) qs ?t1)"
    by (rule keeps_fold) (rule keeps_producer_closed)
  show ?case
  proof (cases "pid = q")
    case True
    have "closed_gone ?t1 r u cid"
      using Cons.prems(2) True producer_closed_gone keeps_closed_gone [OF k] by blast
    then show ?thesis using keeps_closed_gone [OF kf] by simp
  next
    case False
    then have in_qs: "pid \<in> set qs" using Cons.prems(1) by simp
    have "consumer_of ?t1 r u cid = consumer_of t r u cid \<or> closed_gone ?t1 r u cid"
      using k by (simp add: keeps_def)
    then have "(\<exists>c. consumer_of ?t1 r u cid = Some c \<and> c_producerId c = pid) \<or>
        closed_gone ?t1 r u cid"
      using Cons.prems(2) keeps_closed_gone [OF k] by auto
    then show ?thesis using Cons.IH [OF in_qs] by simp
  qed
qed

text \<open>
  C5. For a consumer \<open>cid\<close> of participant \<open>userId\<close>: closing its parent transport, or
  its source producer being closed, or closing the transport that carries its source
  producer, leaves the consumer closed and removed from the consumer set of its owner, who
  is still in the room.
\<close>

theorem consumer_cascade:
  assumes p: "part_of s roomId userId = Some p" and c: "map_of (consumers p) cid = Some c"
  shows "(c_transport c = tid \<longrightarrow>
            closed_gone (transport_close roomId userId tid s) roomId userId cid \<and>
            part_of (transport_close roomId userId tid s) roomId userId \<noteq> None) \<and>
         (c_producerId c = pid \<longrightarrow>
            closed_gone (producer_closed roomId pid s) roomId userId cid \<and>
            part_of (producer_closed roomId pid s) roomId userId \<noteq> None) \<and>
         (part_of s roomId owner = Some po \<and> map_of (producers po) pid = Some pr \<and>
          p_transport pr = tid' \<and> c_producerId c = pid \<longrightarrow>
            closed_gone (transport_close roomId owner tid' s) roomId userId cid \<and>
            part_of (transport_close roomId owner tid' s) roomId userId \<noteq> None)"
proof (intro conjI impI)
  have present: "part_of t roomId userId \<noteq> None" if "keeps s t" for t
    using that p by (simp add: keeps_def)
  have co: "consumer_of s roomId userId cid = Some c"
    using p c by (simp add: consumer_of_def)
  show "part_of (transport_close roomId userId tid s) roomId userId \<noteq> None"
    by (rule present) (rule keeps_transport_close)
  show "part_of (producer_closed roomId pid s) roomId userId \<noteq> None"
    by (rule present) (rule keeps_producer_closed)
  show "part_of (transport_close roomId owner tid' s) roomId userId \<noteq> None"
    by (rule present) (rule keeps_transport_close)
  {
    assume "c_producerId c = pid"
    with co show "closed_gone (producer_closed roomId pid s) roomId userId cid"
      by (rule producer_closed_gone)
  }
  {
    assume tr: "c_transport c = tid"
    let ?s0 = "engine_did (CloseTransport tid) s"
    obtain room where room: "map_of (rooms ?s0) roomId = Some room"
      and pr: "map_of (participants room) userId = Some p"
      using p by (auto simp add: part_of_def rooms_engine_did split: option.splits)
    let ?pids = "map fst (filter (\<lambda>(pid, pr). p_transport pr = tid) (producers p))"
    let ?cids = "map fst (filter (\<lambda>(cid, c). c_transport c = tid) (consumers p))"
    let ?s1 = "fold (producer_on_transportclose roomId userId) ?pids ?s0"
    let ?s2 = "fold (consumer_on_transportclose roomId userId) ?cids ?s1"
    have "(cid, c) \<in> set (consumers p)" using c by (rule map_of_SomeD)
    then have "cid \<in> set ?cids" using tr by force
    then have "closed_gone ?s2 roomId userId cid" by (rule fold_transportclose_gone)
    moreover have "keeps ?s2 (fold (producer_closed roomId) ?pids ?s2)"
      by (rule keeps_fold) (rule keeps_producer_closed)
    ultimately have "closed_gone (fold (producer_closed roomId) ?pids ?s2) roomId userId cid"
      using keeps_closed_gone by blast
    then show "closed_gone (transport_close roomId userId tid s) roomId userId cid"
      using room pr by (simp add: transport_close_def Let_def)
  }
  {
    assume a: "part_of s roomId owner = Some po \<and> map_of (producers po) pid = Some pr \<and>
          p_transport pr = tid' \<and> c_producerId c = pid"
    let ?s0 = "engine_did (CloseTransport tid') s"
    obtain room where room: "map_of (rooms ?s0) roomId = Some room"
      and po: "map_of (participants room) owner = Some po"
      using a by (auto simp add: part_of_def rooms_engine_did split: option.splits)
    let ?pids = "map fst (filter (\<lambda>(pid, pr). p_transport pr = tid') (producers po))"
    let ?cids = "map fst (filter (\<lambda>(cid, c). c_transport c = tid') (consumers po))"
    let ?s1 = "fold (producer_on_transportclose roomId owner) ?pids ?s0"
    let ?s2 = "fold (consumer_on_transportclose roomId owner) ?cids ?s1"
    have "(pid, pr) \<in> set (producers po)" using a by (auto intro: map_of_SomeD)
    then have pin: "pid \<in> set ?pids" using a by force
    have "keeps s ?s0" by (rule keeps_engine_did)
    moreover have "keeps ?s0 ?s1" by (rule keeps_fold) (rule keeps_producer_handler)
    moreover have "keeps ?s1 ?s2" by (rule keeps_fold) (rule keeps_consumer_handlers)
    ultimately have "keeps s ?s2" using keeps_trans by blast
    then have "consumer_of ?s2 roomId userId cid = consumer_of s roomId userId cid \<or>
        closed_gone ?s2 roomId userId cid"
      by (simp add: keeps_def)
    then have "(\<exists>c. consumer_of ?s2 roomId userId cid = Some c \<and> c_producerId c = pid) \<or>
        closed_gone ?s2 roomId userId cid"
      using co a by auto
    then have "closed_gone (fold (producer_closed roomId) ?pids ?s2) roomId userId cid"
      by (rule fold_producer_closed_gone [OF pin])
    then show "closed_gone (transport_close roomId owner tid' s) roomId userId cid"
      using room po by (simp add: transport_close_def Let_def)
  }
qed

theorem consumer_cascade_witness:
  "closed_gone (transport_close ''r1'' ''B'' ''tB'' demo5) ''r1'' ''B'' ''cB'' \<and>
   closed_gone (producer_closed ''r1'' ''pA'' demo5) ''r1'' ''B'' ''cB'' \<and>
   closed_gone (transport_close ''r1'' ''A'' ''tA'' demo5) ''r1'' ''B'' ''cB''"
proof -
  let ?c = "\<lparr>c_id = ''cB'', c_kind = ''video'', c_rtpParameters = ''rtp'',
             c_producerId = ''pA'', c_userId = ''B'', c_transport = ''tB'', c_paused = True\<rparr>"
  let ?pB = "\<lparr>part_id = ''B'',
             transports = [(''tB0'', \<lparr>t_id = ''tB0'', t_userId = ''B'', t_direction = ''send'', t_params = ''hs''\<rparr>),
                           (''tB'', \<lparr>t_id = ''tB'', t_userId = ''B'', t_direction = ''recv'', t_params = ''hs''\<rparr>)],
             producers = [], consumers = [(''cB'', ?c)], joinedAt = 2\<rparr>"
  let ?pr = "\<lparr>p_id = ''pA'', p_kind = ''video'', p_userId = ''A'', p_transport = ''tA''\<rparr>"
  let ?pA = "\<lparr>part_id = ''A'',
             transports = [(''tA'', \<lparr>t_id = ''tA'', t_userId = ''A'', t_direction = ''send'', t_params = ''hs''\<rparr>)],
             producers = [(''pA'', ?pr)], consumers = [], joinedAt = 1\<rparr>"
  have p: "part_of demo5 ''r1'' ''B'' = Some ?pB" by (simp add: part_of_def rooms_demo5)
  have c: "map_of (consumers ?pB) ''cB'' = Some ?c" by simp
  have po: "part_of demo5 ''r1'' ''A'' = Some ?pA" by (simp add: part_of_def rooms_demo5)
  have pr: "map_of (producers ?pA) ''pA'' = Some ?pr" by simp
  show ?thesis
    using consumer_cascade [OF p c, of "''tB''" "''pA''" "''A''" ?pA ?pr "''tA''"] po pr
    by simp
qed

subsection \<open>Rooms without participants\<close>

text \<open>
  C1, as stated, fails: \<^verbatim>\<open>createRoom\<close> registers a room with no participant, and the
  room stays registered.
\<close>

theorem createRoom_registers_empty_room: "map_option participants
     (map_of (rooms (snd (createRoom (initialize 1) ''s1'' 0 (Inr ''R1'')))) ''s1'') = Some []"
  by (simp add: createRoom_def getNextWorker_def engine_did_def logger_def
      Let_def initialize_def)

text \<open>
  C1, amended. When \<^verbatim>\<open>closeParticipant\<close> removes a participant, then on its return
  either the room still has a participant, or the room is out of the registry and its
  router was closed.
\<close>

theorem closeParticipant_last_leaves:
  assumes room: "map_of (rooms s) roomId = Some room"
    and p: "map_of (participants room) userId = Some p"
  shows "case map_of (rooms (closeParticipant s roomId userId)) roomId of
           None \<Rightarrow> CloseRouter (router room) \<in> set (engine (closeParticipant s roomId userId))
         | Some room' \<Rightarrow> participants room' \<noteq> []"
proof -
  let ?s1 = "fold (transport_close roomId userId) (map fst (transports p)) s"
  let ?f = "\<lambda>r. r\<lparr>participants := AList.delete userId (participants r)\<rparr>"
  let ?s3 = "logger Info ''Participant removed from room''
      (?s1\<lparr>rooms := AList.map_entry roomId ?f (rooms ?s1)\<rparr>)"
  have "keeps s ?s1" by (rule keeps_close_all)
  then have "map_option router (map_of (rooms ?s1) roomId) = Some (router room)"
    using room by (simp add: keeps_def)
  then obtain r1 where r1: "map_of (rooms ?s1) roomId = Some r1" and rt: "router r1 = router room"
    by auto
  have r3: "map_of (rooms ?s3) roomId = Some (?f r1)"
    using r1 by (simp add: logger_def map_of_map_entry)
  have cp: "closeParticipant s roomId userId =
      (if length (participants (?f r1)) = 0
       then logger Info ''Room closed (empty)''
              ((engine_did (CloseRouter (router (?f r1))) ?s3)\<lparr>rooms := AList.delete roomId (rooms ?s3)\<rparr>)
       else ?s3)"
    using room p r3 by (simp add: closeParticipant_def Let_def)
  show ?thesis
  proof (cases "length (participants (?f r1)) = 0")
    case True
    then show ?thesis using cp rt
      by (simp add: logger_def engine_did_def delete_conv')
  next
    case False
    then show ?thesis using cp r3 by auto
  qed
qed

theorem closeParticipant_last_leaves_witness:
  "map_of (rooms (closeParticipant demo1 ''r1'' ''A'')) ''r1'' = None \<and>
   CloseRouter ''R1'' \<in> set (engine (closeParticipant demo1 ''r1'' ''A''))"
proof -
  let ?pA = "\<lparr>part_id = ''A'',
             transports = [(''tA'', \<lparr>t_id = ''tA'', t_userId = ''A'', t_direction = ''send'', t_params = ''hs''\<rparr>)],
             producers = [], consumers = [], joinedAt = 1\<rparr>"
  let ?room = "\<lparr>room_id = ''r1'', router = ''R1'', participants = [(''A'', ?pA)],
       createdAt = 1, room_workerIndex = 0\<rparr>"
  have r: "map_of (rooms demo1) ''r1'' = Some ?room" by (simp add: rooms_demo1)
  have p: "map_of (participants ?room) ''A'' = Some ?pA" by simp
  have gone: "map_of (rooms (closeParticipant demo1 ''r1'' ''A'')) ''r1'' = None"
    by (simp add: closeParticipant_def rooms_demo1 transport_close_def engine_did_def
        logger_def Let_def)
  show ?thesis using closeParticipant_last_leaves [OF r p] gone by simp
qed

subsection \<open>Transports per direction\<close>

lemma update_fresh: "map_of al k = None \<Longrightarrow> AList.update k v al = al @ [(k, v)]"
  by (induction al) (auto split: if_splits)

lemma part_of_createWebRtcTransport:
  assumes "createWebRtcTransport s roomId userId direction now routerRes (Inr (tid, params)) = (Inr d, s')"
  shows "part_of s' roomId userId =
     Some ((case part_of s roomId userId of
              Some p \<Rightarrow> p
            | None \<Rightarrow> \<lparr>part_id = userId, transports = [], producers = [], consumers = [], joinedAt = now\<rparr>)
           \<lparr>transports := AList.update tid
               \<lparr>t_id = tid, t_userId = userId, t_direction = direction, t_params = params\<rparr>
               (transports (case part_of s roomId userId of
              Some p \<Rightarrow> p
            | None \<Rightarrow> \<lparr>part_id = userId, transports = [], producers = [], consumers = [], joinedAt = now\<rparr>))\<rparr>)"
proof -
  obtain room s1 where cr: "createRoom s roomId now routerRes = (Inr room, s1)"
    using assms by (auto simp add: createWebRtcTransport_def split: prod.splits sum.splits)
  note p = createRoom_Inr(2) [OF cr, of userId]
  show ?thesis using assms cr p
    by (auto simp add: createWebRtcTransport_def Let_def engine_did_def part_of_def update_conv'
        split: option.splits)
qed

text \<open>
  C4, as stated, fails: two calls of \<^verbatim>\<open>createWebRtcTransport\<close> with direction
  \<^verbatim>\<open>'send'\<close> leave the participant with two send transports.
\<close>

theorem two_send_transports: "count_direction
     (snd (createWebRtcTransport
        (snd (createWebRtcTransport (initialize 1) ''s1'' ''u1'' ''send'' 0 (Inr ''R1'') (Inr (''t1'', ''x''))))
        ''s1'' ''u1'' ''send'' 1 (Inr ''R2'') (Inr (''t2'', ''y''))))
     ''s1'' ''u1'' ''send'' = 2"
  by (simp add: createWebRtcTransport_def createRoom_def getNextWorker_def engine_did_def logger_def
      Let_def initialize_def count_direction_def part_of_def)

text \<open>
  C4, amended. \<^verbatim>\<open>createWebRtcTransport\<close> sets no bound: every call that the engine
  answers with a transport id new to the participant adds one transport of the requested
  direction to the participant and none of another direction.
\<close>

theorem createWebRtcTransport_adds_one:
  assumes ok: "createWebRtcTransport s roomId userId direction now routerRes (Inr (tid, params)) = (Inr d, s')"
    and fresh: "\<forall>p. part_of s roomId userId = Some p \<longrightarrow> map_of (transports p) tid = None"
  shows "count_direction s' roomId userId dir =
         count_direction s roomId userId dir + (if dir = direction then 1 else 0)"
proof (cases "part_of s roomId userId")
  case None
  then show ?thesis using part_of_createWebRtcTransport [OF ok]
    by (simp add: count_direction_def)
next
  case (Some p)
  then have "map_of (transports p) tid = None" using fresh by simp
  then show ?thesis using part_of_createWebRtcTransport [OF ok] Some
    by (simp add: count_direction_def update_fresh)
qed

theorem createWebRtcTransport_adds_one_witness:
  "count_direction
     (snd (createWebRtcTransport demo1 ''r1'' ''A'' ''send'' 5 (Inr ''Rx'') (Inr (''tA2'', ''hs''))))
     ''r1'' ''A'' ''send'' = 2 \<and>
   count_direction
     (snd (createWebRtcTransport demo1 ''r1'' ''A'' ''send'' 5 (Inr ''Rx'') (Inr (''tA2'', ''hs''))))
     ''r1'' ''A'' ''recv'' = 0"
proof -
  let ?s' = "snd (createWebRtcTransport demo1 ''r1'' ''A'' ''send'' 5 (Inr ''Rx'') (Inr (''tA2'', ''hs'')))"
  have ok: "createWebRtcTransport demo1 ''r1'' ''A'' ''send'' 5 (Inr ''Rx'') (Inr (''tA2'', ''hs'')) =
      (Inr (''tA2'', ''hs''), ?s')"
    by (simp add: createWebRtcTransport_def createRoom_def rooms_demo1 Let_def)
  have fresh: "\<forall>p. part_of demo1 ''r1'' ''A'' = Some p \<longrightarrow> map_of (transports p) ''tA2'' = None"
    by (simp add: part_of_def rooms_demo1)
  have c0: "count_direction demo1 ''r1'' ''A'' ''send'' = 1"
    "count_direction demo1 ''r1'' ''A'' ''recv'' = 0"
    by (simp_all add: count_direction_def part_of_def rooms_demo1)
  show ?thesis
    using createWebRtcTransport_adds_one [OF ok fresh, of "''send''"]
      createWebRtcTransport_adds_one [OF ok fresh, of "''recv''"] c0
    by simp
qed

subsection \<open>consume and the receive transport\<close>

lemma find_producer_Some:
  "map_of ps owner = Some po \<Longrightarrow> map_of (producers po) pid = Some src \<Longrightarrow>
   find_producer ps pid \<noteq> None"
  by (induction ps pid rule: find_producer.induct) (auto split: option.splits if_splits)

lemma find_recv_None:
  "length (filter (\<lambda>(tid, t). t_direction t = ''recv'') ts) = 0 \<Longrightarrow> find_recv ts = None"
  by (auto simp add: find_recv_def find_None_iff filter_empty_conv)

lemma find_recv_update:
  "t_direction t = ''recv'' \<Longrightarrow> find_recv (AList.update tid t ts) \<noteq> None"
  by (induction ts) (auto simp add: find_recv_def)

text \<open>
  C6. For a participant of a room that holds no transport of direction \<^verbatim>\<open>'recv'\<close>, and
  a producer that some participant of the room holds, with capabilities that the router
  accepts: \<^verbatim>\<open>consume\<close> fails with "No receive transport found"; the creation of a
  receive transport for the participant succeeds; and after it the same call, answered by
  the engine with a consumer, returns the descriptor of that consumer.
\<close>

theorem consume_needs_recv_transport:
  assumes room: "map_of (rooms s) roomId = Some room"
    and p: "map_of (participants room) userId = Some p"
    and owner: "map_of (participants room) owner = Some po"
    and src: "map_of (producers po) producerId = Some src"
    and norecv: "count_direction s roomId userId ''recv'' = 0"
  shows "fst (consume s roomId userId producerId True consumeRes) =
           Inl (Error ''No receive transport found'') \<and>
         fst (createWebRtcTransport s roomId userId ''recv'' now routerRes (Inr (tid, params))) =
           Inr (tid, params) \<and>
         fst (consume
                (snd (createWebRtcTransport s roomId userId ''recv'' now routerRes (Inr (tid, params))))
                roomId userId producerId True (Inr (cid, kind, rtp))) =
           Inr (cid, kind, rtp, producerId)"
proof (intro conjI)
  have fp: "find_producer (participants room) producerId \<noteq> None"
    using owner src by (rule find_producer_Some)
  have "find_recv (transports p) = None"
    using norecv room p by (simp add: count_direction_def part_of_def find_recv_None)
  then show "fst (consume s roomId userId producerId True consumeRes) =
           Inl (Error ''No receive transport found'')"
    using room p fp by (auto simp add: consume_def split: option.splits)
  let ?t = "\<lparr>t_id = tid, t_userId = userId, t_direction = ''recv'', t_params = params\<rparr>"
  let ?p' = "p\<lparr>transports := AList.update tid ?t (transports p)\<rparr>"
  let ?room' = "room\<lparr>participants := AList.update userId ?p' (participants room)\<rparr>"
  let ?s2 = "engine_did (NewTransport tid) s"
  have cr: "createRoom s roomId now routerRes = (Inr room, s)"
    using room by (simp add: createRoom_def)
  have ct: "createWebRtcTransport s roomId userId ''recv'' now routerRes (Inr (tid, params)) =
      (Inr (tid, params), ?s2\<lparr>rooms := AList.update roomId ?room' (rooms ?s2)\<rparr>)"
    using cr p by (simp add: createWebRtcTransport_def Let_def)
  show "fst (createWebRtcTransport s roomId userId ''recv'' now routerRes (Inr (tid, params))) =
           Inr (tid, params)"
    using ct by simp
  have r': "map_of (rooms (?s2\<lparr>rooms := AList.update roomId ?room' (rooms ?s2)\<rparr>)) roomId = Some ?room'"
    by (simp add: update_conv')
  have p': "map_of (participants ?room') userId = Some ?p'"
    by (simp add: update_conv')
  have "\<exists>po'. map_of (participants ?room') owner = Some po' \<and>
      map_of (producers po') producerId = Some src"
    using owner src p by (cases "owner = userId") (auto simp add: update_conv')
  then have fp': "find_producer (participants ?room') producerId \<noteq> None"
    using find_producer_Some by blast
  have fr: "find_recv (transports ?p') \<noteq> None"
    by (simp add: find_recv_update)
  show "fst (consume
                (snd (createWebRtcTransport s roomId userId ''recv'' now routerRes (Inr (tid, params))))
                roomId userId producerId True (Inr (cid, kind, rtp))) =
           Inr (cid, kind, rtp, producerId)"
    using fp' fr
    unfolding ct snd_conv consume_def r' p' option.case
    by (auto simp add: Let_def split: option.splits)
qed

theorem consume_needs_recv_transport_witness:
  "fst (consume demo3 ''r1'' ''B'' ''pA'' True (Inr (''cB'', ''video'', ''rtp''))) =
     Inl (Error ''No receive transport found'') \<and>
   fst (consume demo4 ''r1'' ''B'' ''pA'' True (Inr (''cB'', ''video'', ''rtp''))) =
     Inr (''cB'', ''video'', ''rtp'', ''pA'')"
proof -
  let ?pr = "\<lparr>p_id = ''pA'', p_kind = ''video'', p_userId = ''A'', p_transport = ''tA''\<rparr>"
  let ?pA = "\<lparr>part_id = ''A'',
             transports = [(''tA'', \<lparr>t_id = ''tA'', t_userId = ''A'', t_direction = ''send'', t_params = ''hs''\<rparr>)],
             producers = [(''pA'', ?pr)], consumers = [], joinedAt = 1\<rparr>"
  let ?pB = "\<lparr>part_id = ''B'',
             transports = [(''tB0'', \<lparr>t_id = ''tB0'', t_userId = ''B'', t_direction = ''send'', t_params = ''hs''\<rparr>)],
             producers = [], consumers = [], joinedAt = 2\<rparr>"
  let ?room = "\<lparr>room_id = ''r1'', router = ''R1'', participants = [(''A'', ?pA), (''B'', ?pB)],
       createdAt = 1, room_workerIndex = 0\<rparr>"
  have r: "map_of (rooms demo3) ''r1'' = Some ?room" by (simp add: rooms_demo3)
  have p: "map_of (participants ?room) ''B'' = Some ?pB" by simp
  have o: "map_of (participants ?room) ''A'' = Some ?pA" by simp
  have src: "map_of (producers ?pA) ''pA'' = Some ?pr" by simp
  have n: "count_direction demo3 ''r1'' ''B'' ''recv'' = 0"
    by (simp add: count_direction_def part_of_def rooms_demo3)
  show ?thesis
    using consume_needs_recv_transport [OF r p o src n,
        of "Inr (''cB'', ''video'', ''rtp'')" 3 "Inr ''R3''" "''tB''" "''hs''" "''cB''" "''video''" "''rtp''"]
    by (simp add: demo4_def)
qed

subsection \<open>Failures of the database and of the message queue\<close>

lemma fold_same:
  assumes "\<And>x s. g (f x s) = g s"
  shows "g (fold f xs s) = g s"
  by (induction xs arbitrary: s) (simp_all add: assms)

lemma wc_logger: "logger l x (with_collab d m s) = with_collab d m (logger l x s)"
  by (simp add: logger_def with_collab_def)

lemma wc_engine_did: "engine_did op (with_collab d m s) = with_collab d m (engine_did op s)"
  by (simp add: engine_did_def with_collab_def)

lemma wc_rooms: "rooms (with_collab d m s) = rooms s"
  by (simp add: with_collab_def)

lemma wc_on_participant:
  "on_participant r u f (with_collab d m s) = with_collab d m (on_participant r u f s)"
  by (simp add: on_participant_def with_collab_def)

lemma wc_handlers:
  "producer_on_transportclose r u x (with_collab d m s) =
     with_collab d m (producer_on_transportclose r u x s)"
  "consumer_on_transportclose r u x (with_collab d m s) =
     with_collab d m (consumer_on_transportclose r u x s)"
  "consumer_on_producerclose r u x (with_collab d m s) =
     with_collab d m (consumer_on_producerclose r u x s)"
  by (simp_all add: producer_on_transportclose_def consumer_on_transportclose_def
      consumer_on_producerclose_def wc_on_participant wc_engine_did)

lemma wc_fold:
  assumes "\<And>x s. f x (with_collab d m s) = with_collab d m (f x s)"
  shows "fold f xs (with_collab d m s) = with_collab d m (fold f xs s)"
  by (induction xs arbitrary: s) (simp_all add: assms)

lemma wc_producer_closed:
  "producer_closed r pid (with_collab d m s) = with_collab d m (producer_closed r pid s)"
proof -
  have "fold (\<lambda>(uid, cid). consumer_on_producerclose r uid cid) xs (with_collab d m s) =
      with_collab d m (fold (\<lambda>(uid, cid). consumer_on_producerclose r uid cid) xs s)" for xs
    by (rule wc_fold) (auto simp add: wc_handlers)
  then show ?thesis by (simp add: producer_closed_def wc_rooms split: option.splits)
qed

lemma wc_transport_close:
  "transport_close r u tid (with_collab d m s) = with_collab d m (transport_close r u tid s)"
proof -
  have a: "fold (producer_on_transportclose r u) xs (with_collab d m t) =
      with_collab d m (fold (producer_on_transportclose r u) xs t)" for xs t
    by (rule wc_fold) (rule wc_handlers)
  have b: "fold (consumer_on_transportclose r u) xs (with_collab d m t) =
      with_collab d m (fold (consumer_on_transportclose r u) xs t)" for xs t
    by (rule wc_fold) (rule wc_handlers)
  have c: "fold (producer_closed r) xs (with_collab d m t) =
      with_collab d m (fold (producer_closed r) xs t)" for xs t
    by (rule wc_fold) (rule wc_producer_closed)
  show ?thesis
    by (simp add: transport_close_def Let_def wc_engine_did wc_rooms a b c split: option.splits)
qed

lemma wc_closeParticipant:
  "closeParticipant (with_collab d m s) r u = with_collab d m (closeParticipant s r u)"
proof -
  have a: "fold (transport_close r u) xs (with_collab d m t) =
      with_collab d m (fold (transport_close r u) xs t)" for xs t
    by (rule wc_fold) (rule wc_transport_close)
  have b: "(with_collab d m t)\<lparr>rooms := X\<rparr> = with_collab d m (t\<lparr>rooms := X\<rparr>)" for t X
    by (simp add: with_collab_def)
  show ?thesis
    by (simp add: closeParticipant_def Let_def wc_rooms a b wc_logger wc_engine_did
        split: option.splits)
qed

lemma wc_createRoom:
  "createRoom (with_collab d m s) roomId now rr =
     (fst (createRoom s roomId now rr), with_collab d m (snd (createRoom s roomId now rr)))"
  by (simp add: createRoom_def getNextWorker_def Let_def engine_did_def logger_def with_collab_def
      split: option.splits sum.splits)

lemma wc_produce:
  "produce (with_collab d m s) roomId userId tid kind pr =
     (fst (produce s roomId userId tid kind pr),
      with_collab d m (snd (produce s roomId userId tid kind pr)))"
  by (simp add: produce_def Let_def engine_did_def logger_def with_collab_def
      split: option.splits sum.splits)

lemma wc_getStream:
  "CacheService_getStream (with_collab d m s) streamId =
     (fst (CacheService_getStream s streamId),
      with_collab d m (snd (CacheService_getStream s streamId)))"
  by (simp add: CacheService_getStream_def logger_def with_collab_def split: option.splits)

lemma wc_updateStream:
  "CacheService_updateStream (with_collab d m s) streamId h =
     (fst (CacheService_updateStream s streamId h),
      with_collab d m (snd (CacheService_updateStream s streamId h)))"
  by (simp add: CacheService_updateStream_def logger_def with_collab_def)

lemma live_logger: "live_state (logger l x s) = live_state s"
  by (simp add: live_state_def logger_def)

lemma live_wc: "live_state (with_collab d m s) = live_state s"
  by (simp add: live_state_def with_collab_def)

lemma live_publish:
  "live_state (publishStreamEvent e i s) = live_state s"
  "live_state (publishAnalyticsEvent e i s) = live_state s"
  by (simp_all add: publishStreamEvent_def publishAnalyticsEvent_def live_state_def logger_def
      split: mq_status.splits)

lemma live_cache:
  "live_state s = live_state t \<Longrightarrow>
   live_state (s\<lparr>cache_streams := (cache_streams s)(k \<mapsto> v)\<rparr>) =
   live_state (t\<lparr>cache_streams := (cache_streams t)(k \<mapsto> v)\<rparr>)"
  by (simp add: live_state_def)

lemma db_step_live:
  "live_state (case Stream_updateOne s i h of (Inl e, t) \<Rightarrow> logger l x t | (Inr u, t) \<Rightarrow> t) =
     live_state s"
  "live_state (case Stream_save s i h of (Inl e, t) \<Rightarrow> logger l x t | (Inr u, t) \<Rightarrow> t) =
     live_state s"
  by (simp_all add: Stream_updateOne_def Stream_save_def live_state_def logger_def
      split: option.splits)

lemma createStream_collab:
  "fst (StreamService_createStream (with_collab d m s) userId sd streamId now rr cc) =
     fst (StreamService_createStream s userId sd streamId now rr cc) \<and>
   live_state (snd (StreamService_createStream (with_collab d m s) userId sd streamId now rr cc)) =
     live_state (snd (StreamService_createStream s userId sd streamId now rr cc))"
proof -
  obtain r s1 where cr: "createRoom s streamId (nat now) rr = (r, s1)" by (cases "createRoom s streamId (nat now) rr")
  have cr': "createRoom (with_collab d m s) streamId (nat now) rr = (r, with_collab d m s1)"
    using cr by (simp add: wc_createRoom)
  have c: "live_state ((with_collab d m s1)\<lparr>cache_streams := (cache_streams (with_collab d m s1))(k \<mapsto> v)\<rparr>) =
      live_state (s1\<lparr>cache_streams := (cache_streams s1)(k \<mapsto> v)\<rparr>)" for k v
    by (rule live_cache) (rule live_wc)
  show ?thesis
    by (cases r; cases cc)
       (simp_all add: StreamService_createStream_def Let_def cr cr'
          live_logger live_wc live_publish db_step_live c)
qed

lemma produce_collab:
  "fst (StreamService_produce (with_collab d m s) roomId userId tid kind pr now) =
     fst (StreamService_produce s roomId userId tid kind pr now) \<and>
   live_state (snd (StreamService_produce (with_collab d m s) roomId userId tid kind pr now)) =
     live_state (snd (StreamService_produce s roomId userId tid kind pr now))"
proof -
  obtain r s1 where p: "produce s roomId userId tid kind pr = (r, s1)"
    by (cases "produce s roomId userId tid kind pr")
  have p': "produce (with_collab d m s) roomId userId tid kind pr = (r, with_collab d m s1)"
    using p by (simp add: wc_produce)
  obtain st s2 where g: "CacheService_getStream s1 roomId = (st, s2)"
    by (cases "CacheService_getStream s1 roomId")
  have g': "CacheService_getStream (with_collab d m s1) roomId = (st, with_collab d m s2)"
    using g by (simp add: wc_getStream)
  obtain ur s3 where u: "CacheService_updateStream s2 roomId
      [(''isLive'', JBool True), (''startedAt'', JDate now)] = (ur, s3)"
    by (cases "CacheService_updateStream s2 roomId [(''isLive'', JBool True), (''startedAt'', JDate now)]")
  have u': "CacheService_updateStream (with_collab d m s2) roomId
      [(''isLive'', JBool True), (''startedAt'', JDate now)] = (ur, with_collab d m s3)"
    using u by (simp add: wc_updateStream)
  show ?thesis
    by (cases r; cases ur;
        cases "not_yet_live st")
       (simp_all add: StreamService_produce_def Let_def p p' g g' u u'
          live_logger live_wc live_publish db_step_live)
qed

lemma endStream_collab:
  "fst (StreamService_endStream (with_collab d m s) streamId userId now fs) =
     fst (StreamService_endStream s streamId userId now fs) \<and>
   live_state (snd (StreamService_endStream (with_collab d m s) streamId userId now fs)) =
     live_state (snd (StreamService_endStream s streamId userId now fs))"
proof -
  obtain st s1 where g: "CacheService_getStream s streamId = (st, s1)"
    by (cases "CacheService_getStream s streamId")
  have g': "CacheService_getStream (with_collab d m s) streamId = (st, with_collab d m s1)"
    using g by (simp add: wc_getStream)
  show ?thesis
  proof (cases st)
    case None
    then show ?thesis
      by (simp add: StreamService_endStream_def g g' live_logger live_wc)
  next
    case (Some stream)
    let ?upd = "[(''isLive'', JBool False),
                  (''endedAt'', JDate now),
                  (''duration'', duration_since (map_of stream ''startedAt'') now),
                  (''maxViewers'', or0 (map_of fs ''maxViewers'')),
                  (''totalViews'', or0 (map_of fs ''views'')),
                  (''totalChatMessages'', or0 (map_of fs ''chatMessages''))]"
    obtain ur s3 where u: "CacheService_updateStream (closeParticipant s1 streamId userId)
        streamId ?upd = (ur, s3)"
      by (cases "CacheService_updateStream (closeParticipant s1 streamId userId) streamId ?upd")
    have u': "CacheService_updateStream (closeParticipant (with_collab d m s1) streamId userId)
        streamId ?upd = (ur, with_collab d m s3)"
      using u by (simp add: wc_closeParticipant wc_updateStream)
    have t: "live_state (x\<lparr>timers := timers x @ z\<rparr>) =
        (\<lambda>(w, wi, r, e, cu, cs, tm). (w, wi, r, e, cu, cs, tm @ z)) (live_state x)" for x z
      by (simp add: live_state_def)
    show ?thesis
      by (cases ur)
         (simp_all add: StreamService_endStream_def Let_def g g' Some u u'
            live_logger live_wc live_publish db_step_live t)
  qed
qed

subsection \<open>The stream of the instances\<close>

lemma collab_demo1:
  "cache_up demo1" "db_up demo1" "mq demo1 = PublishOk" "published demo1 = []"
  "timers demo1 = []" "cache_streams demo1 = Map.empty" "db_streams demo1 = Map.empty"
  by (simp_all add: demo1_def createWebRtcTransport_def createRoom_def getNextWorker_def
      engine_did_def logger_def Let_def initialize_def upt_rec)

lemma hset_demo_stream: "hset_all demo_stream [] = demo_stream"
  by (simp add: hset_all_def demo_stream_def new_stream_def)

lemma isLive_demo_stream: "map_of demo_stream ''isLive'' = Some (JBool False)"
  by (simp add: demo_stream_def new_stream_def)

lemma started_fields:
  "map_of (started_stream t) ''isLive'' = Some (JBool True)"
  "map_of (started_stream t) ''startedAt'' = Some (JDate t)"
  "started_stream t \<noteq> []"
  "hset_all [(''isLive'', JBool True), (''startedAt'', JDate t')] (started_stream t) = started_stream t'"
  by (simp_all add: started_stream_def hset_all_def demo_stream_def new_stream_def)

lemma fields_live1:
  "rooms live1 = rooms demo1" "cache_up live1" "db_up live1" "mq live1 = PublishOk"
  "published live1 = []" "timers live1 = []"
  "cache_streams live1 ''r1'' = Some demo_stream" "db_streams live1 ''r1'' = Some demo_stream"
  by (simp_all add: live1_def Stream_save_def CacheService_updateStream_def logger_def
      collab_demo1 hset_demo_stream)

lemma demo_stream_nonempty: "demo_stream \<noteq> []"
  by (simp add: demo_stream_def new_stream_def)

lemma produce_live1:
  "fst (StreamService_produce live1 ''r1'' ''A'' ''tA'' ''video'' (Inr ''pV'') 100) =
     Inr \<lparr>p_id = ''pV'', p_kind = ''video'', p_userId = ''A'', p_transport = ''tA''\<rparr>"
  by (simp add: StreamService_produce_def produce_def fields_live1 rooms_demo1
      CacheService_getStream_def CacheService_updateStream_def Stream_updateOne_def
      publishStreamEvent_def publishAnalyticsEvent_def not_yet_live_def
      isLive_demo_stream demo_stream_nonempty engine_did_def logger_def Let_def)

lemma fields_live2:
  "cache_up live2" "db_up live2" "mq live2 = PublishOk"
  "published live2 = [(''stream.events'', ''stream.started'', ''r1''),
                      (''analytics.events'', ''producer.created'', ''r1'')]"
  "timers live2 = []"
  "cache_streams live2 ''r1'' = Some (started_stream 100)"
  "db_streams live2 ''r1'' = Some (started_stream 100)"
  "map_of (rooms live2) ''r1'' =
     Some \<lparr>room_id = ''r1'', router = ''R1'',
       participants =
        [(''A'', \<lparr>part_id = ''A'',
             transports = [(''tA'', \<lparr>t_id = ''tA'', t_userId = ''A'', t_direction = ''send'', t_params = ''hs''\<rparr>)],
             producers = [(''pV'', \<lparr>p_id = ''pV'', p_kind = ''video'', p_userId = ''A'', p_transport = ''tA''\<rparr>)],
             consumers = [], joinedAt = 1\<rparr>)],
       createdAt = 1, room_workerIndex = 0\<rparr>"
  by (simp_all add: live2_def StreamService_produce_def produce_def fields_live1 rooms_demo1
      CacheService_getStream_def CacheService_updateStream_def Stream_updateOne_def
      publishStreamEvent_def publishAnalyticsEvent_def not_yet_live_def
      isLive_demo_stream demo_stream_nonempty engine_did_def logger_def Let_def started_stream_def)

lemma produce_live2:
  "fst (StreamService_produce live2 ''r1'' ''A'' ''tA'' ''audio'' (Inr ''pAu'') 200) =
     Inr \<lparr>p_id = ''pAu'', p_kind = ''audio'', p_userId = ''A'', p_transport = ''tA''\<rparr>"
  by (simp add: StreamService_produce_def produce_def fields_live2
      CacheService_getStream_def CacheService_updateStream_def Stream_updateOne_def
      publishStreamEvent_def publishAnalyticsEvent_def not_yet_live_def
      started_fields engine_did_def logger_def Let_def)

lemma fields_live3:
  "cache_up live3" "db_up live3" "mq live3 = PublishOk"
  "published live3 = [(''stream.events'', ''stream.started'', ''r1''),
                      (''analytics.events'', ''producer.created'', ''r1''),
                      (''stream.events'', ''stream.started'', ''r1''),
                      (''analytics.events'', ''producer.created'', ''r1'')]"
  "timers live3 = []"
  "cache_streams live3 ''r1'' = Some (started_stream 100)"
  "db_streams live3 ''r1'' = Some (started_stream 200)"
  by (simp_all add: live3_def StreamService_produce_def produce_def fields_live2
      CacheService_getStream_def CacheService_updateStream_def Stream_updateOne_def
      publishStreamEvent_def publishAnalyticsEvent_def not_yet_live_def
      started_fields engine_did_def logger_def Let_def)

subsection \<open>The transition to live\<close>

text \<open>
  C3, on the code: user A produces video, then audio, in room r1. Both calls succeed. The
  cache, whose update is under the test \<^verbatim>\<open>stream && !stream.isLive\<close>, keeps the start
  time 100 of the first call; the event \<^verbatim>\<open>stream.started\<close> is published by each of
  the two calls, and the start time in the database is overwritten by the second.
\<close>

theorem started_event_repeated:
  "fst (StreamService_produce live1 ''r1'' ''A'' ''tA'' ''video'' (Inr ''pV'') 100) =
     Inr \<lparr>p_id = ''pV'', p_kind = ''video'', p_userId = ''A'', p_transport = ''tA''\<rparr> \<and>
   fst (StreamService_produce live2 ''r1'' ''A'' ''tA'' ''audio'' (Inr ''pAu'') 200) =
     Inr \<lparr>p_id = ''pAu'', p_kind = ''audio'', p_userId = ''A'', p_transport = ''tA''\<rparr> \<and>
   count_events live2 ''started'' ''r1'' = 1 \<and>
   count_events live3 ''started'' ''r1'' = 2 \<and>
   map_option (\<lambda>h. map_of h ''startedAt'') (cache_streams live3 ''r1'') = Some (Some (JDate 100)) \<and>
   map_option (\<lambda>h. map_of h ''startedAt'') (db_streams live3 ''r1'') = Some (Some (JDate 200))"
  by (simp add: produce_live1 produce_live2 count_events_def fields_live2 fields_live3
      started_fields)

subsection \<open>Ending a stream twice\<close>

lemma cache_handlers:
  "cache_view (producer_on_transportclose r u x s) = cache_view s"
  "cache_view (consumer_on_transportclose r u x s) = cache_view s"
  "cache_view (consumer_on_producerclose r u x s) = cache_view s"
  by (simp_all add: producer_on_transportclose_def consumer_on_transportclose_def
      consumer_on_producerclose_def on_participant_def engine_did_def cache_view_def)

lemma cache_producer_closed: "cache_view (producer_closed r pid s) = cache_view s"
proof -
  have "cache_view (fold (\<lambda>(uid, cid). consumer_on_producerclose r uid cid) xs s) =
      cache_view s" for xs
    by (rule fold_same) (auto simp add: cache_handlers)
  then show ?thesis by (simp add: producer_closed_def split: option.splits)
qed

lemma cache_transport_close: "cache_view (transport_close r u tid s) = cache_view s"
proof -
  have a: "cache_view (fold (producer_on_transportclose r u) xs t) = cache_view t" for xs t
    by (rule fold_same) (rule cache_handlers)
  have b: "cache_view (fold (consumer_on_transportclose r u) xs t) = cache_view t" for xs t
    by (rule fold_same) (rule cache_handlers)
  have c: "cache_view (fold (producer_closed r) xs t) = cache_view t" for xs t
    by (rule fold_same) (rule cache_producer_closed)
  have d: "cache_view (engine_did op t) = cache_view t" for op t
    by (simp add: cache_view_def engine_did_def)
  show ?thesis
    by (simp add: transport_close_def Let_def a b c d split: option.splits)
qed

lemma cache_basic:
  "cache_view (logger l x t) = cache_view t"
  "cache_view (engine_did op t) = cache_view t"
  "cache_view (t\<lparr>rooms := X\<rparr>) = cache_view t"
  "cache_view (t\<lparr>timers := Y\<rparr>) = cache_view t"
  by (simp_all add: cache_view_def logger_def engine_did_def)

lemma cache_closeParticipant: "cache_view (closeParticipant s r u) = cache_view s"
proof -
  have a: "cache_view (fold (transport_close r u) xs t) = cache_view t" for xs t
    by (rule fold_same) (rule cache_transport_close)
  show ?thesis
    by (simp add: closeParticipant_def Let_def a cache_basic split: option.splits)
qed

lemma cache_collab:
  "cache_view (publishStreamEvent e i s) = cache_view s"
  "cache_view (publishAnalyticsEvent e i s) = cache_view s"
  "cache_view (case Stream_updateOne s i h of (Inl e, t) \<Rightarrow> logger l x t | (Inr u, t) \<Rightarrow> t) =
     cache_view s"
  by (simp_all add: publishStreamEvent_def publishAnalyticsEvent_def Stream_updateOne_def
      cache_view_def logger_def split: mq_status.splits option.splits)

lemma deleteStream_cache:
  "cache_up (CacheService_deleteStream s k) = cache_up s"
  "cache_streams (CacheService_deleteStream s k) k' =
     (if cache_up s \<and> k' = k then None else cache_streams s k')"
  by (simp_all add: CacheService_deleteStream_def logger_def)

lemma fold_deleteStream:
  "cache_up (fold (\<lambda>(due, streamId) s'. CacheService_deleteStream s' streamId) L s) = cache_up s \<and>
   cache_streams (fold (\<lambda>(due, streamId) s'. CacheService_deleteStream s' streamId) L s) k =
     (if cache_up s \<and> k \<in> snd ` set L then None else cache_streams s k)"
proof (induction L arbitrary: s)
  case Nil
  show ?case by simp
next
  case (Cons x xs)
  obtain due i where x: "x = (due, i)" by (cases x) auto
  show ?case
    using Cons.IH [of "CacheService_deleteStream s i"]
    by (auto simp add: x deleteStream_cache)
qed

lemma run_due_timers_deletes:
  assumes "(due, streamId) \<in> set (timers s)" and "due \<le> t" and "cache_up s"
  shows "cache_streams (run_due_timers t s) streamId = None"
proof -
  let ?L = "filter (\<lambda>(due, streamId). due \<le> t) (timers s)"
  let ?s = "s\<lparr>timers := filter (\<lambda>(due, streamId). \<not> due \<le> t) (timers s)\<rparr>"
  have "(due, streamId) \<in> set ?L" using assms by simp
  then have "streamId \<in> snd ` set ?L" by force
  moreover have "cache_up ?s" using assms(3) by simp
  ultimately show ?thesis
    unfolding run_due_timers_def using fold_deleteStream [of ?L ?s streamId] by simp
qed

lemma updateStream_Inr:
  "CacheService_updateStream s i h = (Inr u, s') \<Longrightarrow> cache_up s'"
  by (auto simp add: CacheService_updateStream_def logger_def split: if_splits)

lemma endStream_Inr:
  assumes "StreamService_endStream s streamId userId now finalStats = (Inr upd, s1)"
  shows "cache_up s1 \<and> (now + 30000, streamId) \<in> set (timers s1)"
proof -
  from assms obtain stream x1 u x3 upd' where
    upd: "CacheService_updateStream (closeParticipant x1 streamId userId) streamId upd' = (Inr u, x3)"
    and s1: "s1 = (logger Info ''Stream ended''
        (publishAnalyticsEvent ''stream.ended'' streamId
          (publishStreamEvent ''ended'' streamId
            (case Stream_updateOne x3 streamId upd' of
               (Inl dbError, t) \<Rightarrow> logger Warn ''Database update failed'' t
             | (Inr u, t) \<Rightarrow> t))))
        \<lparr>timers := timers (logger Info ''Stream ended''
        (publishAnalyticsEvent ''stream.ended'' streamId
          (publishStreamEvent ''ended'' streamId
            (case Stream_updateOne x3 streamId upd' of
               (Inl dbError, t) \<Rightarrow> logger Warn ''Database update failed'' t
             | (Inr u, t) \<Rightarrow> t)))) @ [(now + 30000, streamId)]\<rparr>"
    unfolding StreamService_endStream_def Let_def
    by (auto split: prod.splits option.splits sum.splits)
  have "cache_up x3" using upd by (rule updateStream_Inr)
  then have "cache_view s1 = (True, cache_streams x3)"
    unfolding s1 by (simp add: cache_basic cache_collab) (simp add: cache_view_def)
  then have "cache_up s1" by (simp add: cache_view_def)
  moreover have "(now + 30000, streamId) \<in> set (timers s1)" unfolding s1 by simp
  ultimately show ?thesis by simp
qed

lemma cache_cp:
  "cache_up (closeParticipant s r u) = cache_up s"
  "cache_streams (closeParticipant s r u) = cache_streams s"
  using cache_closeParticipant [of s r u] by (simp_all add: cache_view_def)

lemma or0_None: "or0 None = JNum 0"
  by (simp add: or0_def)

lemma endStream_live3:
  "fst (StreamService_endStream live3 ''r1'' ''A'' 1000 []) =
     Inr [(''isLive'', JBool False), (''endedAt'', JDate 1000), (''duration'', JNum 900),
      (''maxViewers'', JNum 0), (''totalViews'', JNum 0), (''totalChatMessages'', JNum 0)]"
  by (simp add: StreamService_endStream_def CacheService_getStream_def
      CacheService_updateStream_def fields_live3 started_fields cache_cp or0_None Let_def)

lemma cache_ended1:
  "cache_view ended1 =
     (True, (cache_streams live3)(''r1'' \<mapsto> hset_all [(''isLive'', JBool False), (''endedAt'', JDate 1000), (''duration'', JNum 900),
      (''maxViewers'', JNum 0), (''totalViews'', JNum 0), (''totalChatMessages'', JNum 0)] (started_stream 100)))"
proof -
  have "cache_view ended1 =
      cache_view (snd (CacheService_updateStream (closeParticipant live3 ''r1'' ''A'') ''r1''
                         [(''isLive'', JBool False), (''endedAt'', JDate 1000), (''duration'', JNum 900),
      (''maxViewers'', JNum 0), (''totalViews'', JNum 0), (''totalChatMessages'', JNum 0)]))"
    by (simp add: ended1_def StreamService_endStream_def CacheService_getStream_def
        fields_live3 started_fields or0_None Let_def CacheService_updateStream_def cache_cp
        cache_basic cache_collab)
  then show ?thesis
    by (simp add: CacheService_updateStream_def cache_cp fields_live3 cache_basic)
       (simp add: cache_view_def cache_cp fields_live3)
qed

lemma fields_ended1:
  "cache_up ended1"
  "cache_streams ended1 ''r1'' = Some (hset_all [(''isLive'', JBool False), (''endedAt'', JDate 1000), (''duration'', JNum 900),
      (''maxViewers'', JNum 0), (''totalViews'', JNum 0), (''totalChatMessages'', JNum 0)] (started_stream 100))"
  using cache_ended1 by (simp_all add: cache_view_def)

lemma ended_hash:
  "hset_all [(''isLive'', JBool False), (''endedAt'', JDate 1000), (''duration'', JNum 900),
      (''maxViewers'', JNum 0), (''totalViews'', JNum 0), (''totalChatMessages'', JNum 0)] (started_stream t0) \<noteq> []"
  "map_of (hset_all [(''isLive'', JBool False), (''endedAt'', JDate 1000), (''duration'', JNum 900),
      (''maxViewers'', JNum 0), (''totalViews'', JNum 0), (''totalChatMessages'', JNum 0)] (started_stream t0)) ''startedAt'' = Some (JDate t0)"
  by (simp_all add: started_stream_def hset_all_def demo_stream_def new_stream_def)

text \<open>
  C2, as stated, fails: a second \<^verbatim>\<open>endStream\<close> at time 2000, after a first one at
  time 1000 and before the cleanup scheduled for time 31000, finds the stream in the cache
  and succeeds.
\<close>

theorem second_endStream_in_grace_window:
  "fst (StreamService_endStream live3 ''r1'' ''A'' 1000 []) =
     Inr [(''isLive'', JBool False), (''endedAt'', JDate 1000), (''duration'', JNum 900),
      (''maxViewers'', JNum 0), (''totalViews'', JNum 0), (''totalChatMessages'', JNum 0)] \<and>
   fst (StreamService_endStream
          (snd (StreamService_endStream live3 ''r1'' ''A'' 1000 [])) ''r1'' ''A'' 2000 []) =
     Inr [(''isLive'', JBool False), (''endedAt'', JDate 2000), (''duration'', JNum 1900),
      (''maxViewers'', JNum 0), (''totalViews'', JNum 0), (''totalChatMessages'', JNum 0)]"
proof -
  have "fst (StreamService_endStream ended1 ''r1'' ''A'' 2000 []) =
     Inr [(''isLive'', JBool False), (''endedAt'', JDate 2000), (''duration'', JNum 1900),
      (''maxViewers'', JNum 0), (''totalViews'', JNum 0), (''totalChatMessages'', JNum 0)]"
    by (simp add: StreamService_endStream_def CacheService_getStream_def
      CacheService_updateStream_def fields_ended1 ended_hash cache_cp or0_None Let_def)
  then show ?thesis using endStream_live3 by (simp add: ended1_def)
qed

text \<open>
  C2, amended. After a successful \<^verbatim>\<open>endStream\<close> at time \<open>now\<close>, once the event loop
  has run the cleanup scheduled 30000 ms later, \<^verbatim>\<open>endStream\<close> for the same stream
  fails with "Stream not found".
\<close>

theorem endStream_after_cleanup:
  assumes first: "StreamService_endStream s streamId userId now finalStats = (Inr upd, s1)"
    and late: "now + 30000 \<le> t"
  shows "fst (StreamService_endStream (run_due_timers t s1) streamId userId' now' finalStats') =
           Inl (Error ''Stream not found'')"
proof -
  from endStream_Inr [OF first]
  have "cache_streams (run_due_timers t s1) streamId = None"
    using late run_due_timers_deletes by blast
  then show ?thesis
    by (auto simp add: StreamService_endStream_def CacheService_getStream_def)
qed

theorem endStream_after_cleanup_witness:
  "fst (StreamService_endStream
          (run_due_timers 31000 (snd (StreamService_endStream live3 ''r1'' ''A'' 1000 [])))
          ''r1'' ''A'' 31001 []) = Inl (Error ''Stream not found'')"
proof -
  have first: "StreamService_endStream live3 ''r1'' ''A'' 1000 [] =
      (Inr [(''isLive'', JBool False), (''endedAt'', JDate 1000), (''duration'', JNum 900),
      (''maxViewers'', JNum 0), (''totalViews'', JNum 0), (''totalChatMessages'', JNum 0)],
       snd (StreamService_endStream live3 ''r1'' ''A'' 1000 []))"
    using endStream_live3 by (simp add: prod_eq_iff)
  have late: "(1000::int) + 30000 \<le> 31000" by simp
  show ?thesis using endStream_after_cleanup [OF first late] by simp
qed

subsection \<open>Failures are logged where they are caught\<close>

lemma follows_iff:
  "follows s t \<longleftrightarrow> db_up t = db_up s \<and> mq t = mq s \<and> (\<exists>Y. logs t = logs s @ Y)"
proof -
  have "take (length (logs s)) (logs t) = logs s \<longleftrightarrow> (\<exists>Y. logs t = logs s @ Y)"
  proof
    assume "take (length (logs s)) (logs t) = logs s"
    then have "logs t = logs s @ drop (length (logs s)) (logs t)"
      using append_take_drop_id [of "length (logs s)" "logs t"] by simp
    then show "\<exists>Y. logs t = logs s @ Y" ..
  next
    assume "\<exists>Y. logs t = logs s @ Y"
    then show "take (length (logs s)) (logs t) = logs s" by auto
  qed
  then show ?thesis by (simp add: follows_def)
qed

lemma follows_refl: "follows s s"
  by (simp add: follows_iff)

lemma follows_trans: "follows s t \<Longrightarrow> follows t u \<Longrightarrow> follows s u"
  by (auto simp add: follows_iff)

lemma cascade_view:
  assumes e: "\<And>op t. g (engine_did op t) = g t" and r: "\<And>X t. g (t\<lparr>rooms := X\<rparr>) = g t"
  shows "g (fold (transport_close roomId u) xs s) = g s"
proof -
  have h: "g (producer_on_transportclose roomId v x t) = g t"
    "g (consumer_on_transportclose roomId v x t) = g t"
    "g (consumer_on_producerclose roomId v x t) = g t" for v x t
    by (simp_all add: producer_on_transportclose_def consumer_on_transportclose_def
        consumer_on_producerclose_def on_participant_def e r)
  have pc: "g (producer_closed roomId pid t) = g t" for pid t
  proof -
    have "g (fold (\<lambda>(uid, cid). consumer_on_producerclose roomId uid cid) ys t) = g t" for ys
      by (rule fold_same) (auto simp add: h)
    then show ?thesis by (simp add: producer_closed_def split: option.splits)
  qed
  have tc: "g (transport_close roomId u tid t) = g t" for tid t
  proof -
    have a: "g (fold (producer_on_transportclose roomId u) ys x) = g x" for ys x
      by (rule fold_same) (rule h)
    have b: "g (fold (consumer_on_transportclose roomId u) ys x) = g x" for ys x
      by (rule fold_same) (rule h)
    have c: "g (fold (producer_closed roomId) ys x) = g x" for ys x
      by (rule fold_same) (rule pc)
    show ?thesis
      by (simp add: transport_close_def Let_def a b c e split: option.splits)
  qed
  show ?thesis by (rule fold_same) (rule tc)
qed

lemma follows_closeParticipant: "follows s (closeParticipant s roomId u)"
proof -
  have a: "db_up (fold (transport_close roomId u) xs s) = db_up s" for xs
    by (rule cascade_view) (simp_all add: engine_did_def)
  have b: "mq (fold (transport_close roomId u) xs s) = mq s" for xs
    by (rule cascade_view) (simp_all add: engine_did_def)
  have c: "logs (fold (transport_close roomId u) xs s) = logs s" for xs
    by (rule cascade_view) (simp_all add: engine_did_def)
  show ?thesis
    by (simp add: follows_iff closeParticipant_def Let_def logger_def engine_did_def a b c
        split: option.splits)
qed

lemma follows_createRoom: "follows s (snd (createRoom s roomId now rr))"
  by (simp add: follows_iff createRoom_def getNextWorker_def Let_def engine_did_def logger_def
      split: option.splits sum.splits)

lemma follows_produce: "follows s (snd (produce s roomId userId tid kind pr))"
  by (simp add: follows_iff produce_def Let_def engine_did_def logger_def
      split: option.splits sum.splits)

lemma follows_getStream: "follows s (snd (CacheService_getStream s streamId))"
  by (simp add: follows_iff CacheService_getStream_def logger_def split: option.splits)

lemma follows_updateStream: "follows s (snd (CacheService_updateStream s streamId h))"
  by (simp add: follows_iff CacheService_updateStream_def logger_def)

lemma follows_cache: "follows s (s\<lparr>cache_streams := c\<rparr>)"
  by (simp add: follows_iff)

lemma tail_logged:
  assumes "follows s t"
    and "T = logger l x (publishAnalyticsEvent ea i (publishStreamEvent es i
           (case Stream_updateOne t i h of (Inl e, y) \<Rightarrow> logger Warn w y | (Inr u, y) \<Rightarrow> y)))"
  shows "(\<not> db_up s \<longrightarrow> (Warn, w) \<in> set (logged_since s T)) \<and>
         (mq s = PublishThrows \<longrightarrow>
            (Err, ''Error publishing stream event'') \<in> set (logged_since s T) \<and>
            (Err, ''Error publishing analytics event'') \<in> set (logged_since s T)) \<and>
         (mq s = NoChannel \<longrightarrow>
            (Err, ''RabbitMQ channel not initialized'') \<in> set (logged_since s T) \<and>
            (Err, ''Cannot publish: RabbitMQ channel not available'') \<in> set (logged_since s T))"
  using assms
  by (cases "db_up s"; cases "mq s")
     (auto simp add: follows_iff logged_since_def Stream_updateOne_def publishStreamEvent_def
        publishAnalyticsEvent_def logger_def split: option.splits)

lemma tail_logged_save:
  assumes "follows s t"
    and "T = logger l x (publishStreamEvent es i
           (case Stream_save t i h of (Inl e, y) \<Rightarrow> logger Warn w y | (Inr u, y) \<Rightarrow> y))"
  shows "(\<not> db_up s \<longrightarrow> (Warn, w) \<in> set (logged_since s T)) \<and>
         (mq s = PublishThrows \<longrightarrow>
            (Err, ''Error publishing stream event'') \<in> set (logged_since s T)) \<and>
         (mq s = NoChannel \<longrightarrow>
            (Err, ''RabbitMQ channel not initialized'') \<in> set (logged_since s T))"
  using assms
  by (cases "db_up s"; cases "mq s")
     (auto simp add: follows_iff logged_since_def Stream_save_def publishStreamEvent_def
        logger_def)

lemma logged_since_timers: "logged_since s (t\<lparr>timers := z\<rparr>) = logged_since s t"
  by (simp add: logged_since_def)

lemma createStream_logged:
  assumes ok: "fst (StreamService_createStream s userId sd streamId now rr cc) = Inr stream"
  shows "(\<not> db_up s \<longrightarrow>
            (Warn, ''Database save failed, continuing with cache'') \<in>
              set (logged_since s (snd (StreamService_createStream s userId sd streamId now rr cc)))) \<and>
         (mq s = PublishThrows \<longrightarrow>
            (Err, ''Error publishing stream event'') \<in>
              set (logged_since s (snd (StreamService_createStream s userId sd streamId now rr cc)))) \<and>
         (mq s = NoChannel \<longrightarrow>
            (Err, ''RabbitMQ channel not initialized'') \<in>
              set (logged_since s (snd (StreamService_createStream s userId sd streamId now rr cc))))"
proof -
  obtain r s1 where cr: "createRoom s streamId (nat now) rr = (r, s1)"
    by (cases "createRoom s streamId (nat now) rr")
  from ok cr obtain room where r: "r = Inr room" and cc: "cc = None"
    by (cases r; cases cc) (simp_all add: StreamService_createStream_def Let_def)
  let ?t = "s1\<lparr>cache_streams := (cache_streams s1)(streamId \<mapsto> new_stream streamId userId sd now)\<rparr>"
  have "follows s s1" using follows_createRoom [of s streamId "nat now" rr] cr by simp
  then have f: "follows s ?t" using follows_cache follows_trans by blast
  have T: "snd (StreamService_createStream s userId sd streamId now rr cc) =
      logger Info ''Stream created'' (publishStreamEvent ''create'' streamId
        (case Stream_save ?t streamId (new_stream streamId userId sd now) of
           (Inl e, y) \<Rightarrow> logger Warn ''Database save failed, continuing with cache'' y
         | (Inr u, y) \<Rightarrow> y))"
    by (simp add: StreamService_createStream_def Let_def cr r cc)
  show ?thesis using tail_logged_save [OF f T] .
qed

lemma produce_logged:
  assumes ok: "fst (StreamService_produce s roomId userId tid kind pr now) = Inr p"
  shows "(\<not> db_up s \<longrightarrow>
            (Warn, ''Database update failed'') \<in>
              set (logged_since s (snd (StreamService_produce s roomId userId tid kind pr now)))) \<and>
         (mq s = PublishThrows \<longrightarrow>
            (Err, ''Error publishing stream event'') \<in>
              set (logged_since s (snd (StreamService_produce s roomId userId tid kind pr now))) \<and>
            (Err, ''Error publishing analytics event'') \<in>
              set (logged_since s (snd (StreamService_produce s roomId userId tid kind pr now)))) \<and>
         (mq s = NoChannel \<longrightarrow>
            (Err, ''RabbitMQ channel not initialized'') \<in>
              set (logged_since s (snd (StreamService_produce s roomId userId tid kind pr now))) \<and>
            (Err, ''Cannot publish: RabbitMQ channel not available'') \<in>
              set (logged_since s (snd (StreamService_produce s roomId userId tid kind pr now))))"
proof -
  let ?f = "[(''isLive'', JBool True), (''startedAt'', JDate now)]"
  obtain r s1 where pr: "produce s roomId userId tid kind pr = (r, s1)"
    by (cases "produce s roomId userId tid kind pr")
  obtain st s2 where g: "CacheService_getStream s1 roomId = (st, s2)"
    by (cases "CacheService_getStream s1 roomId")
  obtain ur s3 where u: "(if not_yet_live st then CacheService_updateStream s2 roomId ?f
      else (Inr (), s2)) = (ur, s3)"
    by (cases "if not_yet_live st then CacheService_updateStream s2 roomId ?f else (Inr (), s2)")
  from ok pr g u obtain np where r: "r = Inr np" and ur: "ur = Inr ()"
    by (cases r; cases ur) (simp_all add: StreamService_produce_def Let_def)
  have "follows s s1" using follows_produce [of s roomId userId tid kind pr] pr by simp
  moreover have "follows s1 s2" using follows_getStream [of s1 roomId] g by simp
  moreover have "follows s2 s3"
    using u follows_updateStream [of s2 roomId ?f] by (auto simp add: follows_refl split: if_splits)
  ultimately have f: "follows s s3" using follows_trans by blast
  have T: "snd (StreamService_produce s roomId userId tid kind pr now) =
      logger Info ''Producer Created'' (publishAnalyticsEvent ''producer.created'' roomId
        (publishStreamEvent ''started'' roomId
          (case Stream_updateOne s3 roomId ?f of
             (Inl e, y) \<Rightarrow> logger Warn ''Database update failed'' y
           | (Inr u, y) \<Rightarrow> y)))"
    by (simp add: StreamService_produce_def Let_def pr g u r ur)
  show ?thesis using tail_logged [OF f T] .
qed

lemma endStream_logged:
  assumes ok: "fst (StreamService_endStream s streamId userId now fs) = Inr upd"
  shows "(\<not> db_up s \<longrightarrow>
            (Warn, ''Database update failed'') \<in>
              set (logged_since s (snd (StreamService_endStream s streamId userId now fs)))) \<and>
         (mq s = PublishThrows \<longrightarrow>
            (Err, ''Error publishing stream event'') \<in>
              set (logged_since s (snd (StreamService_endStream s streamId userId now fs))) \<and>
            (Err, ''Error publishing analytics event'') \<in>
              set (logged_since s (snd (StreamService_endStream s streamId userId now fs)))) \<and>
         (mq s = NoChannel \<longrightarrow>
            (Err, ''RabbitMQ channel not initialized'') \<in>
              set (logged_since s (snd (StreamService_endStream s streamId userId now fs))) \<and>
            (Err, ''Cannot publish: RabbitMQ channel not available'') \<in>
              set (logged_since s (snd (StreamService_endStream s streamId userId now fs))))"
proof -
  obtain st s1 where g: "CacheService_getStream s streamId = (st, s1)"
    by (cases "CacheService_getStream s streamId")
  from ok g obtain stream where st: "st = Some stream"
    by (cases st) (simp_all add: StreamService_endStream_def)
  let ?upd = "[(''isLive'', JBool False),
                  (''endedAt'', JDate now),
                  (''duration'', duration_since (map_of stream ''startedAt'') now),
                  (''maxViewers'', or0 (map_of fs ''maxViewers'')),
                  (''totalViews'', or0 (map_of fs ''views'')),
                  (''totalChatMessages'', or0 (map_of fs ''chatMessages''))]"
  obtain ur s3 where u: "CacheService_updateStream (closeParticipant s1 streamId userId)
        streamId ?upd = (ur, s3)"
    by (cases "CacheService_updateStream (closeParticipant s1 streamId userId) streamId ?upd")
  from ok g st u have ur: "ur = Inr ()"
    by (cases ur) (simp_all add: StreamService_endStream_def Let_def)
  have "follows s s1" using follows_getStream [of s streamId] g by simp
  moreover have "follows s1 (closeParticipant s1 streamId userId)"
    by (rule follows_closeParticipant)
  moreover have "follows (closeParticipant s1 streamId userId) s3"
    using follows_updateStream [of "closeParticipant s1 streamId userId" streamId ?upd] u by simp
  ultimately have f: "follows s s3" using follows_trans by blast
  let ?T = "logger Info ''Stream ended'' (publishAnalyticsEvent ''stream.ended'' streamId
        (publishStreamEvent ''ended'' streamId
          (case Stream_updateOne s3 streamId ?upd of
             (Inl e, y) \<Rightarrow> logger Warn ''Database update failed'' y
           | (Inr u, y) \<Rightarrow> y)))"
  have T: "snd (StreamService_endStream s streamId userId now fs) =
      ?T\<lparr>timers := timers ?T @ [(now + 30000, streamId)]\<rparr>"
    by (simp add: StreamService_endStream_def Let_def g st u ur)
  have T0: "?T = logger Info ''Stream ended'' (publishAnalyticsEvent ''stream.ended'' streamId
        (publishStreamEvent ''ended'' streamId
          (case Stream_updateOne s3 streamId ?upd of
             (Inl e, y) \<Rightarrow> logger Warn ''Database update failed'' y
           | (Inr u, y) \<Rightarrow> y)))"
    by (rule refl)
  show ?thesis using tail_logged [OF f T0]
    unfolding T logged_since_timers .
qed

lemma createStream_initialize:
  "fst (StreamService_createStream (initialize 2) ''A''
          \<lparr>sd_title = ''show'', sd_description = None, sd_category = None, sd_isPrivate = None,
           sd_chatEnabled = None, sd_recordingEnabled = None\<rparr> ''r1'' 0 (Inr ''R1'') None) =
     Inr demo_stream"
  by (simp add: StreamService_createStream_def createRoom_def getNextWorker_def initialize_def
      Let_def engine_did_def logger_def upt_rec demo_stream_def)

lemma with_collab_fields: "db_up (with_collab d m s) = d" "mq (with_collab d m s) = m"
  by (simp_all add: with_collab_def)

text \<open>
  C9. For \<^verbatim>\<open>createStream\<close>, \<^verbatim>\<open>produce\<close> and \<^verbatim>\<open>endStream\<close>: whatever the state of
  the database (\<open>d\<close>: its calls succeed or are rejected) and of the message queue (\<open>m\<close>:
  no channel, a rejected publish, or an accepted one), the operation returns the same
  result, error or value, and leaves the same media state, cache and timers. The failures
  are caught where the calls are made (the \<^verbatim>\<open>try\<close> around the calls on the model, and
  inside the publish methods) and logged there: an operation that returns a value has,
  by then, given the logger a warning for the rejected call on the database, an error
  for each rejected publish, and an error for each publish without a channel
  (\<^verbatim>\<open>createStream\<close> publishes the stream event only, \<^verbatim>\<open>produce\<close> and
  \<^verbatim>\<open>endStream\<close> the stream event and the analytics event).
\<close>

theorem collaborator_failures_not_propagated:
  "fst (StreamService_createStream (with_collab d m s) userId sd streamId now rr cc) =
     fst (StreamService_createStream s userId sd streamId now rr cc) \<and>
   live_state (snd (StreamService_createStream (with_collab d m s) userId sd streamId now rr cc)) =
     live_state (snd (StreamService_createStream s userId sd streamId now rr cc)) \<and>
   fst (StreamService_produce (with_collab d m s) roomId userId tid kind pr now) =
     fst (StreamService_produce s roomId userId tid kind pr now) \<and>
   live_state (snd (StreamService_produce (with_collab d m s) roomId userId tid kind pr now)) =
     live_state (snd (StreamService_produce s roomId userId tid kind pr now)) \<and>
   fst (StreamService_endStream (with_collab d m s) streamId userId now fs) =
     fst (StreamService_endStream s streamId userId now fs) \<and>
   live_state (snd (StreamService_endStream (with_collab d m s) streamId userId now fs)) =
     live_state (snd (StreamService_endStream s streamId userId now fs)) \<and>
   (fst (StreamService_createStream s userId sd streamId now rr cc) = Inr stream \<longrightarrow>
      (\<not> db_up s \<longrightarrow>
         (Warn, ''Database save failed, continuing with cache'') \<in>
           set (logged_since s (snd (StreamService_createStream s userId sd streamId now rr cc)))) \<and>
      (mq s = PublishThrows \<longrightarrow>
         (Err, ''Error publishing stream event'') \<in>
           set (logged_since s (snd (StreamService_createStream s userId sd streamId now rr cc)))) \<and>
      (mq s = NoChannel \<longrightarrow>
         (Err, ''RabbitMQ channel not initialized'') \<in>
           set (logged_since s (snd (StreamService_createStream s userId sd streamId now rr cc))))) \<and>
   (fst (StreamService_produce s roomId userId tid kind pr now) = Inr p \<longrightarrow>
      (\<not> db_up s \<longrightarrow>
         (Warn, ''Database update failed'') \<in>
           set (logged_since s (snd (StreamService_produce s roomId userId tid kind pr now)))) \<and>
      (mq s = PublishThrows \<longrightarrow>
         (Err, ''Error publishing stream event'') \<in>
           set (logged_since s (snd (StreamService_produce s roomId userId tid kind pr now))) \<and>
         (Err, ''Error publishing analytics event'') \<in>
           set (logged_since s (snd (StreamService_produce s roomId userId tid kind pr now)))) \<and>
      (mq s = NoChannel \<longrightarrow>
         (Err, ''RabbitMQ channel not initialized'') \<in>
           set (logged_since s (snd (StreamService_produce s roomId userId tid kind pr now))) \<and>
         (Err, ''Cannot publish: RabbitMQ channel not available'') \<in>
           set (logged_since s (snd (StreamService_produce s roomId userId tid kind pr now))))) \<and>
   (fst (StreamService_endStream s streamId userId now fs) = Inr upd \<longrightarrow>
      (\<not> db_up s \<longrightarrow>
         (Warn, ''Database update failed'') \<in>
           set (logged_since s (snd (StreamService_endStream s streamId userId now fs)))) \<and>
      (mq s = PublishThrows \<longrightarrow>
         (Err, ''Error publishing stream event'') \<in>
           set (logged_since s (snd (StreamService_endStream s streamId userId now fs))) \<and>
         (Err, ''Error publishing analytics event'') \<in>
           set (logged_since s (snd (StreamService_endStream s streamId userId now fs)))) \<and>
      (mq s = NoChannel \<longrightarrow>
         (Err, ''RabbitMQ channel not initialized'') \<in>
           set (logged_since s (snd (StreamService_endStream s streamId userId now fs))) \<and>
         (Err, ''Cannot publish: RabbitMQ channel not available'') \<in>
           set (logged_since s (snd (StreamService_endStream s streamId userId now fs)))))"
proof (intro conjI impI)
  show "fst (StreamService_createStream (with_collab d m s) userId sd streamId now rr cc) =
     fst (StreamService_createStream s userId sd streamId now rr cc)"
    "live_state (snd (StreamService_createStream (with_collab d m s) userId sd streamId now rr cc)) =
     live_state (snd (StreamService_createStream s userId sd streamId now rr cc))"
    by (simp_all only: createStream_collab)
  show "fst (StreamService_produce (with_collab d m s) roomId userId tid kind pr now) =
     fst (StreamService_produce s roomId userId tid kind pr now)"
    "live_state (snd (StreamService_produce (with_collab d m s) roomId userId tid kind pr now)) =
     live_state (snd (StreamService_produce s roomId userId tid kind pr now))"
    by (simp_all only: produce_collab)
  show "fst (StreamService_endStream (with_collab d m s) streamId userId now fs) =
     fst (StreamService_endStream s streamId userId now fs)"
    "live_state (snd (StreamService_endStream (with_collab d m s) streamId userId now fs)) =
     live_state (snd (StreamService_endStream s streamId userId now fs))"
    by (simp_all only: endStream_collab)
next
  assume "fst (StreamService_createStream s userId sd streamId now rr cc) = Inr stream"
  note a = createStream_logged [OF this]
  { assume "\<not> db_up s"
    then show "(Warn, ''Database save failed, continuing with cache'') \<in>
           set (logged_since s (snd (StreamService_createStream s userId sd streamId now rr cc)))"
      using a by blast }
  { assume "mq s = PublishThrows"
    then show "(Err, ''Error publishing stream event'') \<in>
           set (logged_since s (snd (StreamService_createStream s userId sd streamId now rr cc)))"
      using a by blast }
  { assume "mq s = NoChannel"
    then show "(Err, ''RabbitMQ channel not initialized'') \<in>
           set (logged_since s (snd (StreamService_createStream s userId sd streamId now rr cc)))"
      using a by blast }
next
  assume "fst (StreamService_produce s roomId userId tid kind pr now) = Inr p"
  note a = produce_logged [OF this]
  { assume "\<not> db_up s"
    then show "(Warn, ''Database update failed'') \<in>
           set (logged_since s (snd (StreamService_produce s roomId userId tid kind pr now)))"
      using a by blast }
  { assume "mq s = PublishThrows"
    then show "(Err, ''Error publishing stream event'') \<in>
           set (logged_since s (snd (StreamService_produce s roomId userId tid kind pr now)))"
      "(Err, ''Error publishing analytics event'') \<in>
           set (logged_since s (snd (StreamService_produce s roomId userId tid kind pr now)))"
      using a by blast+ }
  { assume "mq s = NoChannel"
    then show "(Err, ''RabbitMQ channel not initialized'') \<in>
           set (logged_since s (snd (StreamService_produce s roomId userId tid kind pr now)))"
      "(Err, ''Cannot publish: RabbitMQ channel not available'') \<in>
           set (logged_since s (snd (StreamService_produce s roomId userId tid kind pr now)))"
      using a by blast+ }
next
  assume "fst (StreamService_endStream s streamId userId now fs) = Inr upd"
  note a = endStream_logged [OF this]
  { assume "\<not> db_up s"
    then show "(Warn, ''Database update failed'') \<in>
           set (logged_since s (snd (StreamService_endStream s streamId userId now fs)))"
      using a by blast }
  { assume "mq s = PublishThrows"
    then show "(Err, ''Error publishing stream event'') \<in>
           set (logged_since s (snd (StreamService_endStream s streamId userId now fs)))"
      "(Err, ''Error publishing analytics event'') \<in>
           set (logged_since s (snd (StreamService_endStream s streamId userId now fs)))"
      using a by blast+ }
  { assume "mq s = NoChannel"
    then show "(Err, ''RabbitMQ channel not initialized'') \<in>
           set (logged_since s (snd (StreamService_endStream s streamId userId now fs)))"
      "(Err, ''Cannot publish: RabbitMQ channel not available'') \<in>
           set (logged_since s (snd (StreamService_endStream s streamId userId now fs)))"
      using a by blast+ }
qed

text \<open>
  With the database down and no channel, \<^verbatim>\<open>createStream\<close> on a new server returns
  the stream and logs the warning and the error; with the database down and a channel
  that rejects the publish, the first \<^verbatim>\<open>produce\<close> of user A returns the producer and
  logs the warning and the two errors; with the database down and no channel,
  \<^verbatim>\<open>endStream\<close> returns the final fields and logs the warning and the error.
\<close>

theorem collaborator_failures_not_propagated_witness:
  "fst (StreamService_createStream (with_collab False NoChannel (initialize 2)) ''A''
          \<lparr>sd_title = ''show'', sd_description = None, sd_category = None, sd_isPrivate = None,
           sd_chatEnabled = None, sd_recordingEnabled = None\<rparr> ''r1'' 0 (Inr ''R1'') None) =
     Inr demo_stream \<and>
   (Warn, ''Database save failed, continuing with cache'') \<in>
     set (logged_since (with_collab False NoChannel (initialize 2))
       (snd (StreamService_createStream (with_collab False NoChannel (initialize 2)) ''A''
          \<lparr>sd_title = ''show'', sd_description = None, sd_category = None, sd_isPrivate = None,
           sd_chatEnabled = None, sd_recordingEnabled = None\<rparr> ''r1'' 0 (Inr ''R1'') None))) \<and>
   (Err, ''RabbitMQ channel not initialized'') \<in>
     set (logged_since (with_collab False NoChannel (initialize 2))
       (snd (StreamService_createStream (with_collab False NoChannel (initialize 2)) ''A''
          \<lparr>sd_title = ''show'', sd_description = None, sd_category = None, sd_isPrivate = None,
           sd_chatEnabled = None, sd_recordingEnabled = None\<rparr> ''r1'' 0 (Inr ''R1'') None))) \<and>
   fst (StreamService_produce (with_collab False PublishThrows live1)
          ''r1'' ''A'' ''tA'' ''video'' (Inr ''pV'') 100) =
     Inr \<lparr>p_id = ''pV'', p_kind = ''video'', p_userId = ''A'', p_transport = ''tA''\<rparr> \<and>
   (Warn, ''Database update failed'') \<in>
     set (logged_since (with_collab False PublishThrows live1)
       (snd (StreamService_produce (with_collab False PublishThrows live1)
          ''r1'' ''A'' ''tA'' ''video'' (Inr ''pV'') 100))) \<and>
   (Err, ''Error publishing stream event'') \<in>
     set (logged_since (with_collab False PublishThrows live1)
       (snd (StreamService_produce (with_collab False PublishThrows live1)
          ''r1'' ''A'' ''tA'' ''video'' (Inr ''pV'') 100))) \<and>
   (Err, ''Error publishing analytics event'') \<in>
     set (logged_since (with_collab False PublishThrows live1)
       (snd (StreamService_produce (with_collab False PublishThrows live1)
          ''r1'' ''A'' ''tA'' ''video'' (Inr ''pV'') 100))) \<and>
   fst (StreamService_endStream (with_collab False NoChannel live3) ''r1'' ''A'' 1000 []) =
     Inr [(''isLive'', JBool False), (''endedAt'', JDate 1000), (''duration'', JNum 900),
          (''maxViewers'', JNum 0), (''totalViews'', JNum 0), (''totalChatMessages'', JNum 0)] \<and>
   (Warn, ''Database update failed'') \<in>
     set (logged_since (with_collab False NoChannel live3)
       (snd (StreamService_endStream (with_collab False NoChannel live3) ''r1'' ''A'' 1000 []))) \<and>
   (Err, ''Cannot publish: RabbitMQ channel not available'') \<in>
     set (logged_since (with_collab False NoChannel live3)
       (snd (StreamService_endStream (with_collab False NoChannel live3) ''r1'' ''A'' 1000 [])))"
proof -
  let ?sd = "\<lparr>sd_title = ''show'', sd_description = None, sd_category = None,
      sd_isPrivate = None, sd_chatEnabled = None, sd_recordingEnabled = None\<rparr>"
  let ?E = "[(''isLive'', JBool False), (''endedAt'', JDate 1000), (''duration'', JNum 900),
          (''maxViewers'', JNum 0), (''totalViews'', JNum 0), (''totalChatMessages'', JNum 0)]"
  let ?P = "\<lparr>p_id = ''pV'', p_kind = ''video'', p_userId = ''A'', p_transport = ''tA''\<rparr>"
  have c1: "fst (StreamService_createStream (with_collab False NoChannel (initialize 2)) ''A''
      ?sd ''r1'' 0 (Inr ''R1'') None) = Inr demo_stream"
    using collaborator_failures_not_propagated [where d = False and m = NoChannel and s = "initialize 2" and userId = "''A''"
        and sd = ?sd and streamId = "''r1''" and now = 0 and rr = "Inr ''R1''" and cc = None]
      createStream_initialize by simp
  have p1: "fst (StreamService_produce (with_collab False PublishThrows live1)
      ''r1'' ''A'' ''tA'' ''video'' (Inr ''pV'') 100) = Inr ?P"
    using collaborator_failures_not_propagated [where d = False and m = PublishThrows and s = live1 and userId = "''A''"
        and roomId = "''r1''" and tid = "''tA''" and kind = "''video''" and pr = "Inr ''pV''"
        and now = 100]
      produce_live1 by simp
  have e1: "fst (StreamService_endStream (with_collab False NoChannel live3) ''r1'' ''A'' 1000 []) =
      Inr ?E"
    using collaborator_failures_not_propagated [where d = False and m = NoChannel and s = live3 and userId = "''A''"
        and streamId = "''r1''" and now = 1000 and fs = "[]"]
      endStream_live3 by simp
  show ?thesis
    using c1 p1 e1
      collaborator_failures_not_propagated [where s = "with_collab False NoChannel (initialize 2)" and userId = "''A''"
        and sd = ?sd and streamId = "''r1''" and now = 0 and rr = "Inr ''R1''" and cc = None
        and stream = demo_stream]
      collaborator_failures_not_propagated [where s = "with_collab False PublishThrows live1" and userId = "''A''"
        and roomId = "''r1''" and tid = "''tA''" and kind = "''video''" and pr = "Inr ''pV''"
        and now = 100 and p = ?P]
      collaborator_failures_not_propagated [where s = "with_collab False NoChannel live3" and userId = "''A''"
        and streamId = "''r1''" and now = 1000 and fs = "[]" and upd = ?E]
    by (simp add: with_collab_fields)
qed

end
